theory Spec2Isabelle
  imports Complex_Main "HOL-Library.Multiset"
begin

section \<open>Numbers, errors and dictionaries\<close>

text \<open>
  The program computes with Python and numpy floats. A finite float is modelled by the
  rational it stands for, with exact arithmetic (rounding and overflow are abstracted);
  the one non-finite value the program produces from finite data, the \<open>nan\<close> that
  pandas returns for the mean of an empty column, is kept as \<open>NaN\<close>. Arithmetic on
  \<open>number\<close> propagates \<open>NaN\<close> and every comparison with \<open>NaN\<close> is false, as in
  IEEE arithmetic. Table cells, weights and the threshold are finite, hence \<open>rat\<close>.
\<close>

datatype number = NaN | Fin rat

fun fmul :: "number \<Rightarrow> number \<Rightarrow> number" where
  "fmul (Fin x) (Fin y) = Fin (x * y)"
| "fmul _ _ = NaN"

fun fadd :: "number \<Rightarrow> number \<Rightarrow> number" where
  "fadd (Fin x) (Fin y) = Fin (x + y)"
| "fadd _ _ = NaN"

text \<open>
  Division as numpy does it on a column. The program divides by zero only in the mean
  of an empty column, which is 0 / 0 and gives \<open>nan\<close>.
\<close>

fun fdiv :: "number \<Rightarrow> number \<Rightarrow> number" where
  "fdiv (Fin x) (Fin y) = (if y = 0 then NaN else Fin (x / y))"
| "fdiv _ _ = NaN"

text \<open>\<open>x > c\<close> and \<open>x == c\<close> for a float \<open>x\<close> and a finite constant \<open>c\<close>.\<close>

fun gt :: "number \<Rightarrow> rat \<Rightarrow> bool" where
  "gt (Fin x) c = (x > c)"
| "gt NaN c = False"

fun eq :: "number \<Rightarrow> rat \<Rightarrow> bool" where
  "eq (Fin x) c = (x = c)"
| "eq NaN c = False"

text \<open>pandas \<open>Series.mean()\<close>: the sum over the count, \<open>nan\<close> on an empty series.\<close>

definition mean :: "rat list \<Rightarrow> number" where
  "mean xs = (if xs = [] then NaN else Fin (sum_list xs / of_nat (length xs)))"

text \<open>
  \<open>np.isclose(a, b, rtol, atol)\<close> is \<open>|a - b| <= atol + rtol * |b|\<close>; numpy's defaults
  are \<open>rtol = 1e-05\<close> and \<open>atol = 1e-08\<close>, and a \<open>nan\<close> is close to nothing.
\<close>

definition rtol_default :: rat where
  "rtol_default = 1 / 100000"

definition atol_default :: rat where
  "atol_default = 1 / 100000000"

definition isclose :: "rat \<Rightarrow> rat \<Rightarrow> rat \<Rightarrow> rat \<Rightarrow> bool" where
  "isclose a b rtol atol = (\<bar>a - b\<bar> \<le> atol + rtol * \<bar>b\<bar>)"

fun isclose_number :: "number \<Rightarrow> number \<Rightarrow> rat \<Rightarrow> rat \<Rightarrow> bool" where
  "isclose_number (Fin a) (Fin b) rtol atol = isclose a b rtol atol"
| "isclose_number _ _ rtol atol = False"

type_synonym name = string

datatype value_error =
    MissingColumns
  | DomainWeightMismatch name
  | DomainHasNoIndicators name
  | NoIndicatorsDefined
  | DomainWeightsSum
  | MissingWeights
  | ScoreNotOneColumn
  | ContributionCalculationError

datatype error = ValueError value_error | KeyError name

text \<open>
  A Python dict is an association list in insertion order; the keys of a dict are
  distinct. \<open>d.get(k, v)\<close> is \<open>dict_get\<close>, \<open>d[k] = v\<close> is \<open>dict_set\<close> (an existing
  key keeps its place), \<open>d[k]\<close> is \<open>subscript\<close> and raises \<open>KeyError\<close> on a missing key.
\<close>

type_synonym 'v dict = "(name \<times> 'v) list"

definition dict_get :: "'v dict \<Rightarrow> name \<Rightarrow> 'v \<Rightarrow> 'v" where
  "dict_get d k dflt = (case map_of d k of None \<Rightarrow> dflt | Some v \<Rightarrow> v)"

fun dict_set :: "'v dict \<Rightarrow> name \<Rightarrow> 'v \<Rightarrow> 'v dict" where
  "dict_set [] k v = [(k, v)]"
| "dict_set ((k', v') # d) k v =
     (if k' = k then (k, v) # d else (k', v') # dict_set d k v)"

definition subscript :: "'v dict \<Rightarrow> name \<Rightarrow> error + 'v" where
  "subscript d k = (case map_of d k of None \<Rightarrow> Inl (KeyError k) | Some v \<Rightarrow> Inr v)"

text \<open>
  An optional dict argument: \<open>None\<close> and the empty dict are both false in a Python
  condition, and the program only ever tests the argument that way.
\<close>

fun dict_of :: "'v dict option \<Rightarrow> 'v dict" where
  "dict_of None = []"
| "dict_of (Some d) = d"

definition provided :: "'v dict option \<Rightarrow> bool" where
  "provided w = (dict_of w \<noteq> [])"

section \<open>The table\<close>

text \<open>
  The data frame read from the CSV file: its column labels and its rows, a row giving
  the cell under each label. Only the cells under a label of \<open>columns\<close> exist; the
  program checks a label before it reads the column.
\<close>

type_synonym row = "name \<Rightarrow> rat"

record dataframe =
  columns :: "name list"
  rows :: "row list"

text \<open>
  The frame after \<open>df['Deprivation_Score'] = ...\<close> and \<open>df['Is_Poor'] = ...\<close>: each row
  carries the two new cells, which replace cells of the same label. \<open>cell\<close> reads a
  column of that frame; a Boolean counts as 1 or 0 in a mean.
\<close>

record scored_row =
  cells :: row
  Deprivation_Score :: rat
  Is_Poor :: bool

record scored_frame =
  scored_columns :: "name list"
  scored_rows :: "scored_row list"

definition cell :: "scored_row \<Rightarrow> name \<Rightarrow> rat" where
  "cell r c =
     (if c = ''Is_Poor'' then of_bool (Is_Poor r)
      else if c = ''Deprivation_Score'' then Deprivation_Score r
      else cells r c)"

definition add_column :: "name list \<Rightarrow> name \<Rightarrow> name list" where
  "add_column cols c = (if c \<in> set cols then cols else cols @ [c])"

section \<open>Weight validation (MPI.py, lines 37 to 81)\<close>

type_synonym dimensions = "(name \<times> name list) list"

definition all_indicators_of :: "dimensions \<Rightarrow> name list" where
  "all_indicators_of dimensions = concat (map snd dimensions)"

text \<open>Case 1: both weight dicts given; every domain is compared with its indicators.\<close>

fun check_alignment :: "dimensions \<Rightarrow> rat dict \<Rightarrow> rat dict \<Rightarrow> error + unit" where
  "check_alignment [] domain_weights indicator_weights = Inr ()"
| "check_alignment ((domain, indicators) # rest) domain_weights indicator_weights =
     (let domain_total = dict_get domain_weights domain 0;
          indicator_total = sum_list (map (\<lambda>ind. dict_get indicator_weights ind 0) indicators)
      in if \<not> isclose domain_total indicator_total rtol_default (1 / 1000)
         then Inl (ValueError (DomainWeightMismatch domain))
         else check_alignment rest domain_weights indicator_weights)"

text \<open>Case 2: only domain weights; each domain's weight is split among its indicators.\<close>

fun spread_domain_weights :: "dimensions \<Rightarrow> rat dict \<Rightarrow> rat dict \<Rightarrow> error + rat dict" where
  "spread_domain_weights [] domain_weights indicator_weights = Inr indicator_weights"
| "spread_domain_weights ((domain, indicators) # rest) domain_weights indicator_weights =
     (let weight = dict_get domain_weights domain 0
      in if length indicators = 0 then Inl (ValueError (DomainHasNoIndicators domain))
         else
           (let per_indicator = weight / of_nat (length indicators)
            in spread_domain_weights rest domain_weights
                 (foldl (\<lambda>acc ind. dict_set acc ind per_indicator) indicator_weights indicators)))"

text \<open>Case 3: only indicator weights; a domain's weight is the sum over its indicators.\<close>

definition derive_domain_weights :: "dimensions \<Rightarrow> rat dict \<Rightarrow> rat dict" where
  "derive_domain_weights dimensions indicator_weights =
     foldl (\<lambda>acc (domain, indicators).
              dict_set acc domain (sum_list (map (\<lambda>ind. dict_get indicator_weights ind 0) indicators)))
       [] dimensions"

text \<open>Case 4: no weights; \<open>indicator_weights[ind]\<close> in line 70 is a subscript.\<close>

fun sum_subscripts :: "rat dict \<Rightarrow> name list \<Rightarrow> error + rat" where
  "sum_subscripts d [] = Inr 0"
| "sum_subscripts d (ind # inds) =
     (case subscript d ind of
        Inl e \<Rightarrow> Inl e
      | Inr w \<Rightarrow> (case sum_subscripts d inds of Inl e \<Rightarrow> Inl e | Inr s \<Rightarrow> Inr (w + s)))"

fun equal_domain_weights :: "dimensions \<Rightarrow> rat dict \<Rightarrow> rat dict \<Rightarrow> error + rat dict" where
  "equal_domain_weights [] indicator_weights acc = Inr acc"
| "equal_domain_weights ((domain, indicators) # rest) indicator_weights acc =
     (case sum_subscripts indicator_weights indicators of
        Inl e \<Rightarrow> Inl e
      | Inr s \<Rightarrow> equal_domain_weights rest indicator_weights (dict_set acc domain s))"

definition equal_weighting :: "dimensions \<Rightarrow> error + rat dict \<times> rat dict" where
  "equal_weighting dimensions =
     (let all_indicators = all_indicators_of dimensions;
          total_indicators = length all_indicators
      in if total_indicators = 0 then Inl (ValueError NoIndicatorsDefined)
         else
           (let indicator_weights =
                  foldl (\<lambda>acc ind. dict_set acc ind (1 / of_nat total_indicators)) [] all_indicators
            in case equal_domain_weights dimensions indicator_weights [] of
                 Inl e \<Rightarrow> Inl e
               | Inr domain_weights \<Rightarrow> Inr (domain_weights, indicator_weights)))"

definition resolve_cases ::
  "dimensions \<Rightarrow> rat dict option \<Rightarrow> rat dict option \<Rightarrow> error + rat dict \<times> rat dict" where
  "resolve_cases dimensions domain_weights indicator_weights =
     (if provided domain_weights \<and> provided indicator_weights then
        (case check_alignment dimensions (dict_of domain_weights) (dict_of indicator_weights) of
           Inl e \<Rightarrow> Inl e
         | Inr _ \<Rightarrow> Inr (dict_of domain_weights, dict_of indicator_weights))
      else if provided domain_weights then
        (case spread_domain_weights dimensions (dict_of domain_weights) [] of
           Inl e \<Rightarrow> Inl e
         | Inr iw \<Rightarrow> Inr (dict_of domain_weights, iw))
      else if provided indicator_weights then
        Inr (derive_domain_weights dimensions (dict_of indicator_weights), dict_of indicator_weights)
      else equal_weighting dimensions)"

text \<open>The final validation checks, lines 73 to 81.\<close>

definition final_checks :: "name list \<Rightarrow> rat dict \<Rightarrow> rat dict \<Rightarrow> error + rat dict \<times> rat dict" where
  "final_checks all_indicators domain_weights indicator_weights =
     (if domain_weights \<noteq> [] \<and> \<not> isclose (sum_list (map snd domain_weights)) 1 rtol_default (1 / 1000)
      then Inl (ValueError DomainWeightsSum)
      else if indicator_weights \<noteq> [] \<and> \<not> set all_indicators \<subseteq> set (map fst indicator_weights)
      then Inl (ValueError MissingWeights)
      else Inr (domain_weights, indicator_weights))"

definition weight_validation ::
  "dimensions \<Rightarrow> rat dict option \<Rightarrow> rat dict option \<Rightarrow> error + rat dict \<times> rat dict" where
  "weight_validation dimensions domain_weights indicator_weights =
     (case resolve_cases dimensions domain_weights indicator_weights of
        Inl e \<Rightarrow> Inl e
      | Inr (dw, iw) \<Rightarrow> final_checks (all_indicators_of dimensions) dw iw)"

section \<open>Core MPI calculation (MPI.py, lines 84 to 93)\<close>

text \<open>
  The lambda of line 85, applied to one row: the sum, along the listing, of the row's
  cell times the indicator's weight.
\<close>

fun weighted_sum :: "row \<Rightarrow> rat dict \<Rightarrow> name list \<Rightarrow> error + rat" where
  "weighted_sum r indicator_weights [] = Inr 0"
| "weighted_sum r indicator_weights (ind # inds) =
     (case subscript indicator_weights ind of
        Inl e \<Rightarrow> Inl e
      | Inr w \<Rightarrow>
          (case weighted_sum r indicator_weights inds of
             Inl e \<Rightarrow> Inl e
           | Inr s \<Rightarrow> Inr (r ind * w + s)))"

text \<open>The lambda on every row, with the class that line 89 gives to its result.\<close>

fun score_each_row :: "row list \<Rightarrow> rat dict \<Rightarrow> name list \<Rightarrow> rat \<Rightarrow> error + scored_row list" where
  "score_each_row [] indicator_weights all_indicators poverty_threshold = Inr []"
| "score_each_row (r # rs) indicator_weights all_indicators poverty_threshold =
     (case weighted_sum r indicator_weights all_indicators of
        Inl e \<Rightarrow> Inl e
      | Inr s \<Rightarrow>
          (case score_each_row rs indicator_weights all_indicators poverty_threshold of
             Inl e \<Rightarrow> Inl e
           | Inr srs \<Rightarrow>
               Inr (\<lparr>cells = r, Deprivation_Score = s, Is_Poor = (s \<ge> poverty_threshold)\<rparr> # srs)))"

text \<open>
  Lines 84 to 89. An indicator that \<open>dimensions\<close> lists more than once is selected more
  than once by \<open>df[all_indicators]\<close>: the frame has several columns of that label, the
  lambda returns a Series instead of a number, \<open>apply\<close> returns a frame, and the
  assignment of that frame to the one column \<open>Deprivation_Score\<close> raises ValueError.
  The lambda has run by then, so a KeyError of a missing weight comes first.
\<close>

definition score_rows :: "row list \<Rightarrow> rat dict \<Rightarrow> name list \<Rightarrow> rat \<Rightarrow> error + scored_row list" where
  "score_rows rs indicator_weights all_indicators poverty_threshold =
     (case score_each_row rs indicator_weights all_indicators poverty_threshold of
        Inl e \<Rightarrow> Inl e
      | Inr srs \<Rightarrow>
          if distinct all_indicators then Inr srs else Inl (ValueError ScoreNotOneColumn))"

record mpi_stats =
  stat_H :: number
  stat_A :: number
  stat_MPI :: number

definition poor_rows :: "scored_frame \<Rightarrow> scored_row list" where
  "poor_rows df = filter Is_Poor (scored_rows df)"

definition mpi_statistics :: "scored_frame \<Rightarrow> mpi_stats" where
  "mpi_statistics df =
     (let H = mean (map (\<lambda>r. of_bool (Is_Poor r)) (scored_rows df));
          A = (if gt H 0 then mean (map Deprivation_Score (poor_rows df)) else Fin 0);
          MPI = fmul H A
      in \<lparr>stat_H = H, stat_A = A, stat_MPI = MPI\<rparr>)"

definition core_calculation ::
  "dataframe \<Rightarrow> name list \<Rightarrow> rat dict \<Rightarrow> rat \<Rightarrow> error + scored_frame \<times> mpi_stats" where
  "core_calculation df all_indicators indicator_weights poverty_threshold =
     (case score_rows (rows df) indicator_weights all_indicators poverty_threshold of
        Inl e \<Rightarrow> Inl e
      | Inr srs \<Rightarrow>
          (let sdf = \<lparr>scored_columns = add_column (add_column (columns df) ''Deprivation_Score'') ''Is_Poor'',
                      scored_rows = srs\<rparr>
           in Inr (sdf, mpi_statistics sdf)))"

section \<open>Analysis functions\<close>

text \<open>
  \<open>sort_values(..., ascending=False)\<close>: rows in descending order of the key, \<open>nan\<close> keys
  last. The model sorts by stable insertion; pandas does not promise the order of rows
  with equal keys, and nothing below depends on it.
\<close>

fun goes_before :: "number \<Rightarrow> number \<Rightarrow> bool" where
  "goes_before (Fin x) (Fin y) = (x \<ge> y)"
| "goes_before NaN (Fin y) = False"
| "goes_before _ NaN = True"

fun insert_desc :: "('a \<Rightarrow> number) \<Rightarrow> 'a \<Rightarrow> 'a list \<Rightarrow> 'a list" where
  "insert_desc key x [] = [x]"
| "insert_desc key x (y # ys) =
     (if goes_before (key x) (key y) then x # y # ys else y # insert_desc key x ys)"

definition sort_values_desc :: "('a \<Rightarrow> number) \<Rightarrow> 'a list \<Rightarrow> 'a list" where
  "sort_values_desc key xs = foldr (insert_desc key) xs []"

text \<open>\<open>get_deprivation_proportions\<close> (MPI.py, lines 99 to 105).\<close>

definition get_deprivation_proportions :: "scored_frame \<Rightarrow> name list \<Rightarrow> error + (name \<times> number) list" where
  "get_deprivation_proportions df indicators =
     (if \<not> set indicators \<subseteq> set (scored_columns df)
      then Inl (KeyError (hd (filter (\<lambda>ind. ind \<notin> set (scored_columns df)) indicators)))
      else Inr (sort_values_desc snd
                  (map (\<lambda>ind. (ind, mean (map (\<lambda>r. cell r ind) (scored_rows df)))) indicators)))"

text \<open>\<open>get_contribution_analysis\<close> (MPI.py, lines 107 to 125).\<close>

record contribution_row =
  Indicator :: name
  Weight :: rat
  Contribution :: number
  Prevalence_Among_Poor :: number
  Contribution_Pct :: number

text \<open>
  The loop of lines 112 to 121 collects, for every key of \<open>indicator_weights\<close>, the
  indicator, its weight, its contribution and its prevalence among the poor.
\<close>

fun contribution_data ::
  "scored_frame \<Rightarrow> rat dict \<Rightarrow> number \<Rightarrow> error + (name \<times> rat \<times> number \<times> number) list" where
  "contribution_data df [] H = Inr []"
| "contribution_data df ((ind, weight) # items) H =
     (case (if gt H 0
            then (if ind \<in> set (scored_columns df)
                  then Inr (mean (map (\<lambda>r. cell r ind) (poor_rows df)))
                  else Inl (KeyError ind))
            else Inr (Fin 0)) of
        Inl e \<Rightarrow> Inl e
      | Inr ind_prevalence \<Rightarrow>
          (case contribution_data df items H of
             Inl e \<Rightarrow> Inl e
           | Inr rest \<Rightarrow>
               Inr ((ind, weight, fmul (fmul H (Fin weight)) ind_prevalence, ind_prevalence)
                    # rest)))"

definition contribution_pct :: "number \<Rightarrow> number \<Rightarrow> number" where
  "contribution_pct MPI contribution =
     (if gt MPI 0 then fmul (fdiv contribution MPI) (Fin 100) else Fin 0)"

definition contribution_row_of ::
  "number \<Rightarrow> name \<times> rat \<times> number \<times> number \<Rightarrow> contribution_row" where
  "contribution_row_of MPI = (\<lambda>(ind, weight, contribution, ind_prevalence).
     \<lparr>Indicator = ind, Weight = weight, Contribution = contribution,
      Prevalence_Among_Poor = ind_prevalence,
      Contribution_Pct = contribution_pct MPI contribution\<rparr>)"

text \<open>
  A frame built from an empty list has no columns: with no weighted indicator at all,
  \<open>sort_values('Contribution')\<close> finds no such column and raises KeyError.
\<close>

definition get_contribution_analysis ::
  "scored_frame \<Rightarrow> rat dict \<Rightarrow> number \<Rightarrow> number \<Rightarrow> error + contribution_row list" where
  "get_contribution_analysis df indicator_weights H MPI =
     (case contribution_data df indicator_weights H of
        Inl e \<Rightarrow> Inl e
      | Inr entries \<Rightarrow>
          if entries = [] then Inl (KeyError ''Contribution'')
          else Inr (sort_values_desc Contribution (map (contribution_row_of MPI) entries)))"

section \<open>calculate_mpi (MPI.py)\<close>

record mpi_result =
  data :: scored_frame
  mpi_stats :: mpi_stats
  deprivation_analysis :: "(name \<times> number) list"
  contribution_analysis :: "contribution_row list"
  weights :: "rat dict"

definition calculate_mpi ::
  "dataframe \<Rightarrow> dimensions \<Rightarrow> rat dict option \<Rightarrow> rat dict option \<Rightarrow> rat \<Rightarrow> error + mpi_result" where
  "calculate_mpi df dimensions domain_weights indicator_weights poverty_threshold =
     (let all_indicators = all_indicators_of dimensions
      in if \<not> set all_indicators \<subseteq> set (columns df) then Inl (ValueError MissingColumns)
         else
           (case weight_validation dimensions domain_weights indicator_weights of
              Inl e \<Rightarrow> Inl e
            | Inr (dw, iw) \<Rightarrow>
                (case core_calculation df all_indicators iw poverty_threshold of
                   Inl e \<Rightarrow> Inl e
                 | Inr (sdf, stats) \<Rightarrow>
                     (case get_deprivation_proportions sdf all_indicators of
                        Inl e \<Rightarrow> Inl e
                      | Inr deprivation_df \<Rightarrow>
                          (case get_contribution_analysis sdf iw (stat_H stats) (stat_MPI stats) of
                             Inl e \<Rightarrow> Inl e
                           | Inr contribution_df \<Rightarrow>
                               Inr \<lparr>data = sdf, mpi_stats = stats,
                                    deprivation_analysis = deprivation_df,
                                    contribution_analysis = contribution_df,
                                    weights = iw\<rparr>)))))"

section \<open>calculate_mpi (MPI_contributions.py)\<close>

text \<open>
  The second file gives the same function with other analysis functions; the parts it
  elides ("previous code remains unchanged") are the validation and the core above.
\<close>

definition calculate_deprivation_proportions :: "scored_frame \<Rightarrow> name list \<Rightarrow> error + number dict" where
  "calculate_deprivation_proportions df indicators =
     (if \<not> set indicators \<subseteq> set (scored_columns df)
      then Inl (KeyError (hd (filter (\<lambda>ind. ind \<notin> set (scored_columns df)) indicators)))
      else Inr (foldl (\<lambda>acc ind. dict_set acc ind (mean (map (\<lambda>r. cell r ind) (scored_rows df))))
                  [] indicators))"

text \<open>The loop of lines 29 to 33: the contributions and their running total.\<close>

fun contributions_loop ::
  "scored_frame \<Rightarrow> rat dict \<Rightarrow> number \<Rightarrow> number dict \<times> number \<Rightarrow> error + number dict \<times> number" where
  "contributions_loop df [] H acc = Inr acc"
| "contributions_loop df ((ind, weight) # items) H (contributions, total_mpi) =
     (if ind \<in> set (scored_columns df)
      then (let ind_prevalence = mean (map (\<lambda>r. cell r ind) (poor_rows df));
                c = fmul (fmul H (Fin weight)) ind_prevalence
            in contributions_loop df items H (dict_set contributions ind c, fadd total_mpi c))
      else Inl (KeyError ind))"

definition calculate_indicator_contributions ::
  "scored_frame \<Rightarrow> rat dict \<Rightarrow> number \<Rightarrow> error + number dict" where
  "calculate_indicator_contributions df indicator_weights H =
     (if eq H 0 then Inr (foldl (\<lambda>acc ind. dict_set acc ind (Fin 0)) [] (map fst indicator_weights))
      else
        (case contributions_loop df indicator_weights H ([], Fin 0) of
           Inl e \<Rightarrow> Inl e
         | Inr (contributions, total_mpi) \<Rightarrow>
             if \<not> isclose_number total_mpi (fmul H (mean (map Deprivation_Score (poor_rows df))))
                    rtol_default atol_default
             then Inl (ValueError ContributionCalculationError)
             else Inr contributions))"

record mpi_result2 =
  data2 :: scored_frame
  H2 :: number
  A2 :: number
  MPI2 :: number
  deprivation_proportions :: "number dict"
  indicator_contributions :: "number dict"
  indicator_weights2 :: "rat dict"

definition calculate_mpi2 ::
  "dataframe \<Rightarrow> dimensions \<Rightarrow> rat dict option \<Rightarrow> rat dict option \<Rightarrow> rat \<Rightarrow> error + mpi_result2" where
  "calculate_mpi2 df dimensions domain_weights indicator_weights poverty_threshold =
     (let all_indicators = all_indicators_of dimensions
      in if \<not> set all_indicators \<subseteq> set (columns df) then Inl (ValueError MissingColumns)
         else
           (case weight_validation dimensions domain_weights indicator_weights of
              Inl e \<Rightarrow> Inl e
            | Inr (dw, iw) \<Rightarrow>
                (case core_calculation df all_indicators iw poverty_threshold of
                   Inl e \<Rightarrow> Inl e
                 | Inr (sdf, stats) \<Rightarrow>
                     (case calculate_deprivation_proportions sdf all_indicators of
                        Inl e \<Rightarrow> Inl e
                      | Inr props \<Rightarrow>
                          (case calculate_indicator_contributions sdf iw (stat_H stats) of
                             Inl e \<Rightarrow> Inl e
                           | Inr contribs \<Rightarrow>
                               Inr \<lparr>data2 = sdf, H2 = stat_H stats, A2 = stat_A stats,
                                    MPI2 = stat_MPI stats,
                                    deprivation_proportions = props,
                                    indicator_contributions = contribs,
                                    indicator_weights2 = iw\<rparr>)))))"

section \<open>Example inputs\<close>

text \<open>
  A table of three observations over two indicators, one indicator per domain; with no
  weights given and the default threshold, the first two observations are poor.
\<close>

definition ex_df :: dataframe where
  "ex_df = \<lparr>columns = [''a'', ''b''],
            rows = [(\<lambda>_. 0)(''a'' := 1, ''b'' := 1), (\<lambda>_. 0)(''a'' := 1), (\<lambda>_. 0)]\<rparr>"

definition ex_dims :: dimensions where
  "ex_dims = [(''d1'', [''a'']), (''d2'', [''b''])]"

text \<open>
  A table whose first observation is deprived in one of three equally weighted
  indicators, so that its score is exactly the default threshold.
\<close>

definition edge_df :: dataframe where
  "edge_df = \<lparr>columns = [''a'', ''b'', ''c''], rows = [(\<lambda>_. 0)(''a'' := 1), (\<lambda>_. 0)]\<rparr>"

definition edge_dims :: dimensions where
  "edge_dims = [(''d1'', [''a'']), (''d2'', [''b'', ''c''])]"

text \<open>Two observations of one indicator.\<close>

definition repeated_df :: dataframe where
  "repeated_df = \<lparr>columns = [''x''], rows = [(\<lambda>_. 0)(''x'' := 1), (\<lambda>_. 0)]\<rparr>"

text \<open>A table with the two columns and no observation.\<close>

definition empty_df :: dataframe where
  "empty_df = \<lparr>columns = [''a'', ''b''], rows = []\<rparr>"

text \<open>Two domains that list the same indicator.\<close>

definition dup_dims :: dimensions where
  "dup_dims = [(''d1'', [''x'']), (''d2'', [''x''])]"

section \<open>The inputs that validation rejects\<close>

text \<open>
  The weights that the four cases of the validation arrive at, written as total
  functions of the arguments (what each case assigns, without its checks).
\<close>

definition resolved_indicator_weights ::
  "dimensions \<Rightarrow> rat dict option \<Rightarrow> rat dict option \<Rightarrow> rat dict" where
  "resolved_indicator_weights dimensions domain_weights indicator_weights =
     (if provided indicator_weights then dict_of indicator_weights
      else if provided domain_weights then
        foldl (\<lambda>acc (domain, indicators).
                 foldl (\<lambda>acc ind. dict_set acc ind
                          (dict_get (dict_of domain_weights) domain 0 / of_nat (length indicators)))
                   acc indicators)
          [] dimensions
      else foldl (\<lambda>acc ind. dict_set acc ind (1 / of_nat (length (all_indicators_of dimensions))))
             [] (all_indicators_of dimensions))"

definition resolved_domain_weights ::
  "dimensions \<Rightarrow> rat dict option \<Rightarrow> rat dict option \<Rightarrow> rat dict" where
  "resolved_domain_weights dimensions domain_weights indicator_weights =
     (if provided domain_weights then dict_of domain_weights
      else if provided indicator_weights then
        derive_domain_weights dimensions (dict_of indicator_weights)
      else foldl (\<lambda>acc (domain, indicators).
                    dict_set acc domain
                      (of_nat (length indicators) / of_nat (length (all_indicators_of dimensions))))
             [] dimensions)"

text \<open>
  The invalid inputs in the words of claim C7: a listed indicator is not a column;
  both dicts are given and a domain's weight differs from the sum of its indicators'
  weights by more than 0.001; the domain weights do not sum to 1 within 0.001; a listed
  indicator has no resolved weight.
\<close>

definition claimed_invalid ::
  "dataframe \<Rightarrow> dimensions \<Rightarrow> rat dict option \<Rightarrow> rat dict option \<Rightarrow> bool" where
  "claimed_invalid df dimensions domain_weights indicator_weights =
     ((\<exists>ind \<in> set (all_indicators_of dimensions). ind \<notin> set (columns df)) \<or>
      (provided domain_weights \<and> provided indicator_weights \<and>
       (\<exists>(domain, indicators) \<in> set dimensions.
          \<bar>dict_get (dict_of domain_weights) domain 0 -
           (\<Sum>ind\<leftarrow>indicators. dict_get (dict_of indicator_weights) ind 0)\<bar> > 1 / 1000)) \<or>
      \<bar>sum_list (map snd (resolved_domain_weights dimensions domain_weights indicator_weights)) - 1\<bar>
         > 1 / 1000 \<or>
      (\<exists>ind \<in> set (all_indicators_of dimensions).
         ind \<notin> fst ` set (resolved_indicator_weights dimensions domain_weights indicator_weights)))"

text \<open>
  The invalid inputs of the code: the conditions above with the tolerance of
  \<open>np.isclose\<close>, the last two only for a non-empty dict, and the two guards of cases 2
  and 4 (a domain without indicators; no indicator at all).
\<close>

definition invalid_input ::
  "dataframe \<Rightarrow> dimensions \<Rightarrow> rat dict option \<Rightarrow> rat dict option \<Rightarrow> bool" where
  "invalid_input df dimensions domain_weights indicator_weights =
     ((\<exists>ind \<in> set (all_indicators_of dimensions). ind \<notin> set (columns df)) \<or>
      (provided domain_weights \<and> provided indicator_weights \<and>
       (\<exists>(domain, indicators) \<in> set dimensions.
          \<not> isclose (dict_get (dict_of domain_weights) domain 0)
                (\<Sum>ind\<leftarrow>indicators. dict_get (dict_of indicator_weights) ind 0)
                rtol_default (1 / 1000))) \<or>
      (provided domain_weights \<and> \<not> provided indicator_weights \<and>
       (\<exists>(domain, indicators) \<in> set dimensions. indicators = [])) \<or>
      (\<not> provided domain_weights \<and> \<not> provided indicator_weights \<and>
       all_indicators_of dimensions = []) \<or>
      (resolved_domain_weights dimensions domain_weights indicator_weights \<noteq> [] \<and>
       \<not> isclose (sum_list (map snd (resolved_domain_weights dimensions domain_weights indicator_weights)))
             1 rtol_default (1 / 1000)) \<or>
      (resolved_indicator_weights dimensions domain_weights indicator_weights \<noteq> [] \<and>
       (\<exists>ind \<in> set (all_indicators_of dimensions).
          ind \<notin> fst ` set (resolved_indicator_weights dimensions domain_weights indicator_weights))))"

text \<open>Domain weights only, and a domain that lists no indicator.\<close>

definition nodom_df :: dataframe where
  "nodom_df = \<lparr>columns = [''a''], rows = [(\<lambda>_. 0)(''a'' := 1)]\<rparr>"

definition nodom_dims :: dimensions where
  "nodom_dims = [(''d1'', [''a'']), (''d2'', [])]"

definition nodom_weights :: "rat dict option" where
  "nodom_weights = Some [(''d1'', 1)]"

text \<open>The four cases: which inputs they reject, and what they resolve otherwise.\<close>

definition case_invalid :: "dimensions \<Rightarrow> rat dict option \<Rightarrow> rat dict option \<Rightarrow> bool" where
  "case_invalid dimensions domain_weights indicator_weights =
     ((provided domain_weights \<and> provided indicator_weights \<and>
       (\<exists>(domain, indicators) \<in> set dimensions.
          \<not> isclose (dict_get (dict_of domain_weights) domain 0)
                (\<Sum>ind\<leftarrow>indicators. dict_get (dict_of indicator_weights) ind 0)
                rtol_default (1 / 1000))) \<or>
      (provided domain_weights \<and> \<not> provided indicator_weights \<and>
       (\<exists>(domain, indicators) \<in> set dimensions. indicators = [])) \<or>
      (\<not> provided domain_weights \<and> \<not> provided indicator_weights \<and>
       all_indicators_of dimensions = []))"

section \<open>A weight for an indicator outside the dimensions\<close>

text \<open>
  One poor observation, one domain listing the indicator \<open>a\<close>, and indicator weights
  that also give a weight to the column \<open>b\<close>, which no domain lists.
\<close>

definition extra_df :: dataframe where
  "extra_df = \<lparr>columns = [''a'', ''b''], rows = [(\<lambda>_. 0)(''a'' := 1, ''b'' := 1)]\<rparr>"

definition extra_dims :: dimensions where
  "extra_dims = [(''d'', [''a''])]"

definition extra_weights :: "rat dict option" where
  "extra_weights = Some [(''a'', 1), (''b'', 1 / 2)]"

section \<open>Dictionaries and the row loop\<close>

lemmas run_defs =
  calculate_mpi_def all_indicators_of_def weight_validation_def resolve_cases_def provided_def
  equal_weighting_def subscript_def final_checks_def isclose_def rtol_default_def
  atol_default_def score_rows_def core_calculation_def mpi_statistics_def mean_def poor_rows_def
  add_column_def get_deprivation_proportions_def get_contribution_analysis_def
  sort_values_desc_def cell_def contribution_pct_def contribution_row_of_def dict_get_def
  derive_domain_weights_def
  calculate_mpi2_def calculate_deprivation_proportions_def calculate_indicator_contributions_def

lemma map_of_dict_set: "map_of (dict_set d k v) = (map_of d)(k \<mapsto> v)"
  by (induction d) (auto simp: fun_eq_iff)

lemma keys_dict_set: "fst ` set (dict_set d k v) = insert k (fst ` set d)"
  by (simp add: dom_map_of_conv_image_fst [symmetric] map_of_dict_set)

lemma keys_foldl_dict_set:
  "fst ` set (foldl (\<lambda>acc ind. dict_set acc ind v) d inds) = fst ` set d \<union> set inds"
  by (induction inds arbitrary: d) (auto simp: keys_dict_set)

lemma subscript_Inr: "subscript d k = Inr v \<longleftrightarrow> map_of d k = Some v"
  by (simp add: subscript_def split: option.splits)

lemma subscript_Inl: "subscript d k = Inl e \<longleftrightarrow> k \<notin> fst ` set d \<and> e = KeyError k"
  by (auto simp: subscript_def map_of_eq_None_iff [symmetric] split: option.splits)

lemma weighted_sum_Inr:
  "weighted_sum r iw inds = Inr s \<Longrightarrow>
     s = (\<Sum>ind\<leftarrow>inds. r ind * dict_get iw ind 0) \<and> set inds \<subseteq> fst ` set iw"
proof (induction inds arbitrary: s)
  case Nil
  then show ?case by simp
next
  case (Cons ind inds)
  from Cons.prems obtain w s' where w: "subscript iw ind = Inr w"
    and s': "weighted_sum r iw inds = Inr s'" and s: "s = r ind * w + s'"
    by (auto split: sum.splits)
  from w have "map_of iw ind = Some w" by (simp add: subscript_Inr)
  then have "dict_get iw ind 0 = w" "ind \<in> fst ` set iw"
    by (auto simp: dict_get_def dest: map_of_SomeD intro: rev_image_eqI)
  with Cons.IH [OF s'] s show ?case by simp
qed

lemma weighted_sum_total:
  "set inds \<subseteq> fst ` set iw \<Longrightarrow> \<exists>s. weighted_sum r iw inds = Inr s"
proof (induction inds)
  case Nil
  then show ?case by simp
next
  case (Cons ind inds)
  then obtain s where "weighted_sum r iw inds = Inr s" by auto
  moreover from Cons.prems obtain w where "map_of iw ind = Some w"
    by (cases "map_of iw ind") (auto simp: map_of_eq_None_iff)
  ultimately show ?case by (simp add: subscript_def)
qed

lemma weighted_sum_never_ValueError: "weighted_sum r iw inds \<noteq> Inl (ValueError e)"
  by (induction inds) (auto simp: subscript_def split: sum.splits option.splits)

lemma score_rows_Inr_iff:
  "score_rows rs iw inds thr = Inr srs \<longleftrightarrow>
     score_each_row rs iw inds thr = Inr srs \<and> distinct inds"
  by (auto simp: score_rows_def split: sum.splits if_splits)

lemma score_each_row_cells: "score_each_row rs iw inds thr = Inr srs \<Longrightarrow> map cells srs = rs"
  by (induction rs arbitrary: srs) (auto split: sum.splits)

lemma score_each_row_row:
  "score_each_row rs iw inds thr = Inr srs \<Longrightarrow> sr \<in> set srs \<Longrightarrow>
     weighted_sum (cells sr) iw inds = Inr (Deprivation_Score sr) \<and>
     Is_Poor sr = (Deprivation_Score sr \<ge> thr)"
  by (induction rs arbitrary: srs) (auto split: sum.splits)

lemma score_each_row_total:
  "set inds \<subseteq> fst ` set iw \<Longrightarrow> \<exists>srs. score_each_row rs iw inds thr = Inr srs"
proof (induction rs)
  case Nil
  then show ?case by simp
next
  case (Cons r rs)
  then obtain srs where "score_each_row rs iw inds thr = Inr srs" by auto
  moreover from Cons.prems obtain s where "weighted_sum r iw inds = Inr s"
    using weighted_sum_total by blast
  ultimately show ?case by simp
qed

lemma score_each_row_never_ValueError: "score_each_row rs iw inds thr \<noteq> Inl (ValueError e)"
  by (induction rs) (auto simp: weighted_sum_never_ValueError split: sum.splits)

lemma score_rows_cells: "score_rows rs iw inds thr = Inr srs \<Longrightarrow> map cells srs = rs"
  using score_each_row_cells unfolding score_rows_Inr_iff by blast

lemma score_rows_row:
  "score_rows rs iw inds thr = Inr srs \<Longrightarrow> sr \<in> set srs \<Longrightarrow>
     weighted_sum (cells sr) iw inds = Inr (Deprivation_Score sr) \<and>
     Is_Poor sr = (Deprivation_Score sr \<ge> thr)"
  using score_each_row_row unfolding score_rows_Inr_iff by blast

lemma score_rows_total:
  "set inds \<subseteq> fst ` set iw \<Longrightarrow> distinct inds \<Longrightarrow> \<exists>srs. score_rows rs iw inds thr = Inr srs"
  using score_each_row_total unfolding score_rows_Inr_iff by blast

lemma score_rows_ValueError:
  "score_rows rs iw inds thr = Inl (ValueError e) \<Longrightarrow> \<not> distinct inds \<and> e = ScoreNotOneColumn"
  using score_each_row_never_ValueError [of rs iw inds thr]
  by (auto simp: score_rows_def split: sum.splits if_splits)

section \<open>Which indicators have a resolved weight\<close>

lemma spread_domain_weights_keys:
  "spread_domain_weights dimensions dw acc = Inr iw' \<Longrightarrow>
     fst ` set iw' = fst ` set acc \<union> set (all_indicators_of dimensions)"
proof (induction dimensions dw acc rule: spread_domain_weights.induct)
  case (1 dw acc)
  then show ?case by (simp add: all_indicators_of_def)
next
  case (2 domain indicators rest dw acc)
  from "2.prems" have ne: "length indicators \<noteq> 0" by (auto simp: Let_def split: if_splits)
  with "2.prems" "2.IH" [OF refl ne refl] show ?case
    by (auto simp: Let_def all_indicators_of_def keys_foldl_dict_set)
qed

lemma equal_weighting_keys:
  assumes "equal_weighting dimensions = Inr (dw', iw')"
  shows "fst ` set iw' = set (all_indicators_of dimensions)"
proof -
  from assms have "iw' = foldl (\<lambda>acc ind. dict_set acc ind
                 (1 / of_nat (length (all_indicators_of dimensions)))) [] (all_indicators_of dimensions)"
    by (auto simp: equal_weighting_def Let_def split: if_splits sum.splits)
  then show ?thesis by (simp add: keys_foldl_dict_set)
qed

lemma resolve_cases_keys:
  assumes "resolve_cases dimensions dw iw = Inr (dw', iw')"
  shows "iw' \<noteq> [] \<or> all_indicators_of dimensions = []"
proof (cases "provided iw")
  case True
  with assms have "iw' = dict_of iw"
    by (auto simp: resolve_cases_def split: if_splits sum.splits)
  with True show ?thesis by (simp add: provided_def)
next
  case False
  show ?thesis
  proof (cases "provided dw")
    case True
    with False assms have "spread_domain_weights dimensions (dict_of dw) [] = Inr iw'"
      by (auto simp: resolve_cases_def split: if_splits sum.splits)
    from spread_domain_weights_keys [OF this] show ?thesis by auto
  next
    case nd: False
    with False assms have "equal_weighting dimensions = Inr (dw', iw')"
      by (auto simp: resolve_cases_def split: if_splits sum.splits)
    from equal_weighting_keys [OF this] show ?thesis by auto
  qed
qed

lemma weight_validation_keys:
  assumes "weight_validation dimensions dw iw = Inr (dw', iw')"
  shows "set (all_indicators_of dimensions) \<subseteq> fst ` set iw'"
proof -
  from assms obtain dw0 iw0 where r: "resolve_cases dimensions dw iw = Inr (dw0, iw0)"
    and f: "final_checks (all_indicators_of dimensions) dw0 iw0 = Inr (dw', iw')"
    by (auto simp: weight_validation_def split: sum.splits)
  from f have eq: "iw' = iw0"
    and sub: "iw0 \<noteq> [] \<longrightarrow> set (all_indicators_of dimensions) \<subseteq> fst ` set iw0"
    by (auto simp: final_checks_def split: if_splits)
  from resolve_cases_keys [OF r] sub eq show ?thesis by auto
qed

section \<open>The phases of a successful run\<close>

lemma calculate_mpi_Inr:
  assumes "calculate_mpi df dimensions dw iw thr = Inr res"
  shows "\<exists>dw'. set (all_indicators_of dimensions) \<subseteq> set (columns df) \<and>
           weight_validation dimensions dw iw = Inr (dw', weights res) \<and>
           core_calculation df (all_indicators_of dimensions) (weights res) thr =
             Inr (data res, mpi_stats res) \<and>
           get_contribution_analysis (data res) (weights res) (stat_H (mpi_stats res))
             (stat_MPI (mpi_stats res)) = Inr (contribution_analysis res)"
  using assms
  by (auto simp: calculate_mpi_def Let_def split: if_splits sum.splits prod.splits)

lemma core_calculation_Inr:
  assumes "core_calculation df inds iw thr = Inr (sdf, stats)"
  shows "score_rows (rows df) iw inds thr = Inr (scored_rows sdf) \<and> stats = mpi_statistics sdf"
  using assms by (auto simp: core_calculation_def Let_def split: sum.splits)

lemma calculate_mpi_core:
  assumes "calculate_mpi df dimensions dw iw thr = Inr res"
  shows "score_rows (rows df) (weights res) (all_indicators_of dimensions) thr =
           Inr (scored_rows (data res))"
    and "mpi_stats res = mpi_statistics (data res)"
  using calculate_mpi_Inr [OF assms] core_calculation_Inr by blast+

lemma sum_of_bool: "(\<Sum>x\<leftarrow>xs. (of_bool (P x) :: rat)) = of_nat (length (filter P xs))"
  by (induction xs) auto

lemma stat_H_eq:
  "stat_H (mpi_statistics sdf) =
     (if scored_rows sdf = [] then NaN
      else Fin (of_nat (length (poor_rows sdf)) / of_nat (length (scored_rows sdf))))"
  by (simp add: mpi_statistics_def Let_def mean_def sum_of_bool poor_rows_def)

lemma gt_H_iff: "gt (stat_H (mpi_statistics sdf)) 0 \<longleftrightarrow> poor_rows sdf \<noteq> []"
proof (cases "scored_rows sdf = []")
  case True
  then show ?thesis by (simp add: stat_H_eq poor_rows_def)
next
  case False
  then have "0 < (of_nat (length (scored_rows sdf)) :: rat)" by simp
  then show ?thesis
    by (simp add: stat_H_eq False zero_less_divide_iff)
qed

lemma stat_A_eq:
  "stat_A (mpi_statistics sdf) =
     (if poor_rows sdf = [] then Fin 0
      else Fin (sum_list (map Deprivation_Score (poor_rows sdf)) / of_nat (length (poor_rows sdf))))"
  using gt_H_iff [of sdf] by (simp add: mpi_statistics_def Let_def mean_def)

text \<open>The run on the example table.\<close>

lemma ex_run:
  "\<exists>res. calculate_mpi ex_df ex_dims None None (1 / 3) = Inr res \<and>
     map Deprivation_Score (scored_rows (data res)) = [1, 1 / 2, 0] \<and>
     map Is_Poor (scored_rows (data res)) = [True, True, False] \<and>
     mpi_stats res = \<lparr>stat_H = Fin (2 / 3), stat_A = Fin (3 / 4), stat_MPI = Fin (1 / 2)\<rparr> \<and>
     weights res = [(''a'', 1 / 2), (''b'', 1 / 2)] \<and>
     map Contribution (contribution_analysis res) = [Fin (1 / 3), Fin (1 / 6)]"
  by (simp add: run_defs ex_df_def ex_dims_def)

lemma edge_run:
  "\<exists>res. calculate_mpi edge_df edge_dims None None (1 / 3) = Inr res \<and>
     map Deprivation_Score (scored_rows (data res)) = [1 / 3, 0] \<and>
     map Is_Poor (scored_rows (data res)) = [True, False]"
  by (simp add: run_defs edge_df_def edge_dims_def)

section \<open>The statistics\<close>

text \<open>
  Claim C1. Whenever \<open>calculate_mpi\<close> returns, the MPI it returns is the product of the
  headcount ratio H and the intensity A it returns (line 93).
\<close>

theorem mpi_is_H_times_A:
  assumes "calculate_mpi df dimensions domain_weights indicator_weights poverty_threshold = Inr res"
  shows "stat_MPI (mpi_stats res) = fmul (stat_H (mpi_stats res)) (stat_A (mpi_stats res))"
  using calculate_mpi_core(2) [OF assms] by (simp add: mpi_statistics_def Let_def)

theorem mpi_is_H_times_A_witness:
  "\<exists>res. calculate_mpi ex_df ex_dims None None (1 / 3) = Inr res \<and>
     stat_MPI (mpi_stats res) = fmul (stat_H (mpi_stats res)) (stat_A (mpi_stats res)) \<and>
     stat_MPI (mpi_stats res) = Fin (1 / 2)"
proof -
  from ex_run obtain res where r: "calculate_mpi ex_df ex_dims None None (1 / 3) = Inr res"
    and m: "mpi_stats res = \<lparr>stat_H = Fin (2 / 3), stat_A = Fin (3 / 4), stat_MPI = Fin (1 / 2)\<rparr>"
    by blast
  from mpi_is_H_times_A [OF r] r m show ?thesis by simp
qed

text \<open>
  Claim C3. The headcount ratio that \<open>calculate_mpi\<close> returns is the number of
  observations classified as poor divided by the number of observations of the table,
  and the scored table has one row per observation. The division is the one of the
  floats: on a table with at least one observation it is the fraction of poor
  observations, on a table without observations it is 0 / 0, which is \<open>NaN\<close>.
\<close>

theorem headcount_ratio:
  assumes "calculate_mpi df dimensions domain_weights indicator_weights poverty_threshold = Inr res"
  shows "length (scored_rows (data res)) = length (rows df) \<and>
         stat_H (mpi_stats res) =
           fdiv (Fin (of_nat (length (filter Is_Poor (scored_rows (data res))))))
                (Fin (of_nat (length (rows df)))) \<and>
         (rows df \<noteq> [] \<longrightarrow>
            stat_H (mpi_stats res) =
              Fin (of_nat (length (filter Is_Poor (scored_rows (data res)))) /
                   of_nat (length (rows df))))"
proof -
  note sr = calculate_mpi_core(1) [OF assms(1)] and st = calculate_mpi_core(2) [OF assms(1)]
  from score_rows_cells [OF sr] have len: "length (scored_rows (data res)) = length (rows df)"
    by (metis length_map)
  then have "scored_rows (data res) = [] \<longleftrightarrow> rows df = []" by (metis length_0_conv)
  with len st show ?thesis by (simp add: stat_H_eq poor_rows_def)
qed

theorem headcount_ratio_witness:
  "\<exists>res. calculate_mpi ex_df ex_dims None None (1 / 3) = Inr res \<and> rows ex_df \<noteq> [] \<and>
     length (filter Is_Poor (scored_rows (data res))) = 2 \<and> length (rows ex_df) = 3 \<and>
     stat_H (mpi_stats res) = Fin (2 / 3)"
proof -
  from ex_run obtain res where r: "calculate_mpi ex_df ex_dims None None (1 / 3) = Inr res"
    and p: "map Is_Poor (scored_rows (data res)) = [True, True, False]"
    by (elim exE conjE)
  have ne: "rows ex_df \<noteq> []" and three: "length (rows ex_df) = 3" by (simp_all add: ex_df_def)
  from p have "length (filter id (map Is_Poor (scored_rows (data res)))) = 2" by simp
  then have two: "length (filter Is_Poor (scored_rows (data res))) = 2"
    by (simp add: filter_map comp_def)
  from headcount_ratio [OF r] r ne two three show ?thesis by simp
qed

text \<open>
  Claim C4. When at least one observation is classified as poor, the intensity A that
  \<open>calculate_mpi\<close> returns is the arithmetic mean of the deprivation scores of exactly
  the observations classified as poor.
\<close>

theorem intensity_is_mean_among_poor:
  assumes "calculate_mpi df dimensions domain_weights indicator_weights poverty_threshold = Inr res"
    and "\<exists>r \<in> set (scored_rows (data res)). Is_Poor r"
  shows "stat_A (mpi_stats res) =
           Fin (sum_list (map Deprivation_Score (filter Is_Poor (scored_rows (data res)))) /
                of_nat (length (filter Is_Poor (scored_rows (data res)))))"
proof -
  note st = calculate_mpi_core(2) [OF assms(1)]
  from assms(2) have "poor_rows (data res) \<noteq> []"
    by (auto simp: poor_rows_def filter_empty_conv)
  with st show ?thesis by (simp add: stat_A_eq) (simp add: poor_rows_def)
qed

theorem intensity_is_mean_among_poor_witness:
  "\<exists>res. calculate_mpi ex_df ex_dims None None (1 / 3) = Inr res \<and>
     (\<exists>r \<in> set (scored_rows (data res)). Is_Poor r) \<and>
     stat_A (mpi_stats res) =
       Fin (sum_list (map Deprivation_Score (filter Is_Poor (scored_rows (data res)))) /
            of_nat (length (filter Is_Poor (scored_rows (data res))))) \<and>
     stat_A (mpi_stats res) = Fin (3 / 4)"
proof -
  from ex_run obtain res where r: "calculate_mpi ex_df ex_dims None None (1 / 3) = Inr res"
    and p: "map Is_Poor (scored_rows (data res)) = [True, True, False]"
    and m: "mpi_stats res = \<lparr>stat_H = Fin (2 / 3), stat_A = Fin (3 / 4), stat_MPI = Fin (1 / 2)\<rparr>"
    by (elim exE conjE)
  from p have "True \<in> set (map Is_Poor (scored_rows (data res)))" by simp
  then have poor: "\<exists>r \<in> set (scored_rows (data res)). Is_Poor r" by auto
  from intensity_is_mean_among_poor [OF r poor] r poor m show ?thesis by simp
qed

section \<open>Scores and classification\<close>

text \<open>
  Claim C5. The scored table has the observations of the input table, every indicator
  listed in \<open>dimensions\<close> has a resolved weight, and the deprivation score of every
  observation is the sum, over the indicators listed in \<open>dimensions\<close>, of the
  observation's value of the indicator times the resolved weight of the indicator.
\<close>

theorem deprivation_score_is_weighted_sum:
  assumes "calculate_mpi df dimensions domain_weights indicator_weights poverty_threshold = Inr res"
  shows "map cells (scored_rows (data res)) = rows df \<and>
         set (all_indicators_of dimensions) \<subseteq> fst ` set (weights res) \<and>
         (\<forall>r \<in> set (scored_rows (data res)).
            Deprivation_Score r =
              (\<Sum>ind\<leftarrow>all_indicators_of dimensions. cells r ind * dict_get (weights res) ind 0))"
proof -
  note sr = calculate_mpi_core(1) [OF assms(1)]
  from score_rows_row [OF sr] weighted_sum_Inr
  have "\<forall>r \<in> set (scored_rows (data res)).
          Deprivation_Score r =
            (\<Sum>ind\<leftarrow>all_indicators_of dimensions. cells r ind * dict_get (weights res) ind 0)"
    by blast
  moreover have "set (all_indicators_of dimensions) \<subseteq> fst ` set (weights res)"
    using calculate_mpi_Inr [OF assms] weight_validation_keys by blast
  ultimately show ?thesis using score_rows_cells [OF sr] by simp
qed

theorem deprivation_score_is_weighted_sum_witness:
  "\<exists>res. calculate_mpi ex_df ex_dims None None (1 / 3) = Inr res \<and>
     map cells (scored_rows (data res)) = rows ex_df \<and>
     weights res = [(''a'', 1 / 2), (''b'', 1 / 2)] \<and>
     map Deprivation_Score (scored_rows (data res)) = [1, 1 / 2, 0] \<and>
     (\<forall>r \<in> set (scored_rows (data res)).
        Deprivation_Score r = cells r ''a'' * (1 / 2) + cells r ''b'' * (1 / 2))"
proof -
  from ex_run obtain res where r: "calculate_mpi ex_df ex_dims None None (1 / 3) = Inr res"
    and s: "map Deprivation_Score (scored_rows (data res)) = [1, 1 / 2, 0]"
    and w: "weights res = [(''a'', 1 / 2), (''b'', 1 / 2)]"
    by (elim exE conjE)
  from deprivation_score_is_weighted_sum [OF r] have
    c: "map cells (scored_rows (data res)) = rows ex_df"
    and f: "\<forall>r \<in> set (scored_rows (data res)).
            Deprivation_Score r =
              (\<Sum>ind\<leftarrow>all_indicators_of ex_dims. cells r ind * dict_get (weights res) ind 0)"
    by simp_all
  from f have "\<forall>r \<in> set (scored_rows (data res)).
        Deprivation_Score r = cells r ''a'' * (1 / 2) + cells r ''b'' * (1 / 2)"
    by (simp add: w all_indicators_of_def ex_dims_def dict_get_def)
  with r c w s show ?thesis by (intro exI [of _ res] conjI)
qed

text \<open>
  Claim C6. An observation is classified as poor if and only if its deprivation score
  is greater than or equal to the poverty threshold; a score equal to the threshold is
  poor (the first observation of the witness).
\<close>

theorem poor_iff_score_reaches_threshold:
  assumes "calculate_mpi df dimensions domain_weights indicator_weights poverty_threshold = Inr res"
  shows "\<forall>r \<in> set (scored_rows (data res)).
           Is_Poor r \<longleftrightarrow> Deprivation_Score r \<ge> poverty_threshold"
  using score_rows_row [OF calculate_mpi_core(1) [OF assms]] by blast

theorem poor_iff_score_reaches_threshold_witness:
  "\<exists>res. calculate_mpi edge_df edge_dims None None (1 / 3) = Inr res \<and>
     map Deprivation_Score (scored_rows (data res)) = [1 / 3, 0] \<and>
     map Is_Poor (scored_rows (data res)) = [True, False] \<and>
     (\<forall>r \<in> set (scored_rows (data res)). Is_Poor r \<longleftrightarrow> Deprivation_Score r \<ge> 1 / 3)"
proof -
  from edge_run obtain res where r: "calculate_mpi edge_df edge_dims None None (1 / 3) = Inr res"
    and s: "map Deprivation_Score (scored_rows (data res)) = [1 / 3, 0]"
    and p: "map Is_Poor (scored_rows (data res)) = [True, False]"
    by (elim exE conjE)
  from poor_iff_score_reaches_threshold [OF r] r s p show ?thesis
    by (intro exI [of _ res] conjI)
qed

section \<open>No poor observation\<close>

lemma set_insert_desc: "set (insert_desc key x ys) = insert x (set ys)"
  by (induction ys) auto

lemma set_sort_values_desc: "set (sort_values_desc key xs) = set xs"
  by (induction xs) (simp_all add: sort_values_desc_def set_insert_desc)

lemma in_dict_set: "(k', v') \<in> set (dict_set d k v) \<Longrightarrow> v' = v \<or> (k', v') \<in> set d"
  by (induction d) (auto split: if_splits)

lemma values_dict_set: "snd ` set (dict_set d k v) \<subseteq> insert v (snd ` set d)"
  using in_dict_set by fastforce

lemma set_add_column: "set (add_column cols c) = insert c (set cols)"
  by (auto simp: add_column_def)

lemma values_foldl_dict_set:
  "snd ` set (foldl (\<lambda>acc ind. dict_set acc ind v) d inds) \<subseteq> insert v (snd ` set d)"
proof (induction inds arbitrary: d)
  case Nil
  then show ?case by auto
next
  case (Cons ind inds)
  from Cons.IH [of "dict_set d ind v"] values_dict_set [of d ind v] show ?case by auto
qed

lemma scored_columns_core:
  assumes "core_calculation df inds iw thr = Inr (sdf, stats)"
  shows "set (columns df) \<subseteq> set (scored_columns sdf)"
  using assms by (auto simp: core_calculation_def Let_def set_add_column split: sum.splits)

lemma contribution_data_no_poor:
  "\<not> gt H 0 \<Longrightarrow>
     contribution_data sdf iw H =
       Inr (map (\<lambda>(ind, weight). (ind, weight, fmul (fmul H (Fin weight)) (Fin 0), Fin 0)) iw)"
  by (induction iw) auto

lemma stats_when_H_zero:
  assumes "stat_H (mpi_statistics sdf) = Fin 0"
  shows "stat_A (mpi_statistics sdf) = Fin 0" and "stat_MPI (mpi_statistics sdf) = Fin 0"
  using assms by (simp_all add: mpi_statistics_def Let_def)

lemma H_zero_iff:
  "stat_H (mpi_statistics sdf) = Fin 0 \<longleftrightarrow> scored_rows sdf \<noteq> [] \<and> poor_rows sdf = []"
  by (simp add: stat_H_eq)

lemma empty_table_stats:
  assumes "scored_rows sdf = []"
  shows "stat_H (mpi_statistics sdf) = NaN \<and> stat_A (mpi_statistics sdf) = Fin 0 \<and>
         stat_MPI (mpi_statistics sdf) = NaN"
  using assms by (simp add: mpi_statistics_def Let_def mean_def)

text \<open>
  Claim C9, as stated, fails on a table without observations: no observation is
  classified as poor, but H is the mean of an empty column, so H and MPI = H * 0 are
  \<open>NaN\<close> and so is every contribution; only A is 0.
\<close>

theorem no_poor_observation_counterexample:
  "map_sum id (\<lambda>res. (map Is_Poor (scored_rows (data res)), mpi_stats res,
                        map Contribution (contribution_analysis res)))
     (calculate_mpi empty_df ex_dims None None (1 / 3)) =
   Inr ([], \<lparr>stat_H = NaN, stat_A = Fin 0, stat_MPI = NaN\<rparr>, [NaN, NaN])"
  by (simp add: run_defs Let_def empty_df_def ex_dims_def)

text \<open>
  Claim C9, amended. On a table with at least one observation, none of them classified
  as poor, and with a weight for at least one indicator: H = 0, and both versions of
  \<open>calculate_mpi\<close> return, with A = 0 and MPI = 0 and with a contribution of 0 for every
  indicator that has a weight; no mean over the empty set of poor observations is taken.
\<close>

theorem no_poor_observation:
  assumes cols: "set (all_indicators_of dimensions) \<subseteq> set (columns df)"
    and val: "weight_validation dimensions domain_weights indicator_weights = Inr (dw', iw')"
    and core: "core_calculation df (all_indicators_of dimensions) iw' poverty_threshold = Inr (sdf, stats)"
    and rows: "rows df \<noteq> []"
    and none: "\<forall>r \<in> set (scored_rows sdf). \<not> Is_Poor r"
    and some: "iw' \<noteq> []"
  shows "stat_H stats = Fin 0 \<and>
         (\<exists>res. calculate_mpi df dimensions domain_weights indicator_weights poverty_threshold = Inr res \<and>
            stat_H (mpi_stats res) = Fin 0 \<and> stat_A (mpi_stats res) = Fin 0 \<and>
            stat_MPI (mpi_stats res) = Fin 0 \<and>
            Indicator ` set (contribution_analysis res) = fst ` set iw' \<and>
            (\<forall>c \<in> set (contribution_analysis res). Contribution c = Fin 0)) \<and>
         (\<exists>res. calculate_mpi2 df dimensions domain_weights indicator_weights poverty_threshold = Inr res \<and>
            H2 res = Fin 0 \<and> A2 res = Fin 0 \<and> MPI2 res = Fin 0 \<and>
            fst ` set (indicator_contributions res) = fst ` set iw' \<and>
            (\<forall>c \<in> snd ` set (indicator_contributions res). c = Fin 0))"
proof -
  from core_calculation_Inr [OF core] have st: "stats = mpi_statistics sdf"
    and sr: "score_rows (rows df) iw' (all_indicators_of dimensions) poverty_threshold =
               Inr (scored_rows sdf)"
    by simp_all
  from score_rows_cells [OF sr] rows have "scored_rows sdf \<noteq> []" by auto
  moreover from none have "poor_rows sdf = []" by (simp add: poor_rows_def filter_empty_conv)
  ultimately have H0: "stat_H stats = Fin 0" by (simp add: st H_zero_iff)
  from H0 st have A0: "stat_A stats = Fin 0" and M0: "stat_MPI stats = Fin 0"
    by (simp_all add: stats_when_H_zero)
  from cols scored_columns_core [OF core]
  have sub: "set (all_indicators_of dimensions) \<subseteq> set (scored_columns sdf)" by blast
  let ?cd = "map (\<lambda>(ind, weight). (ind, weight, fmul (fmul (Fin 0) (Fin weight)) (Fin 0), Fin 0)) iw'"
  let ?ca = "sort_values_desc Contribution (map (contribution_row_of (Fin 0)) ?cd)"
  have ca: "get_contribution_analysis sdf iw' (Fin 0) (Fin 0) = Inr ?ca"
    using some by (simp add: get_contribution_analysis_def contribution_data_no_poor)
  obtain dep where dep: "get_deprivation_proportions sdf (all_indicators_of dimensions) = Inr dep"
    using sub by (simp add: get_deprivation_proportions_def)
  have run1: "calculate_mpi df dimensions domain_weights indicator_weights poverty_threshold =
      Inr \<lparr>data = sdf, mpi_stats = stats, deprivation_analysis = dep,
           contribution_analysis = ?ca, weights = iw'\<rparr>"
    using cols val core dep ca H0 M0 by (simp add: calculate_mpi_def)
  have ind1: "Indicator ` set ?ca = fst ` set iw'"
    by (force simp: set_sort_values_desc image_iff contribution_row_of_def)
  have zero1: "\<forall>c \<in> set ?ca. Contribution c = Fin 0"
    by (auto simp: set_sort_values_desc contribution_row_of_def)
  let ?ic = "foldl (\<lambda>acc ind. dict_set acc ind (Fin 0)) [] (map fst iw')"
  have ic: "calculate_indicator_contributions sdf iw' (Fin 0) = Inr ?ic"
    by (simp add: calculate_indicator_contributions_def)
  obtain props where props:
    "calculate_deprivation_proportions sdf (all_indicators_of dimensions) = Inr props"
    using sub by (simp add: calculate_deprivation_proportions_def)
  have run2: "calculate_mpi2 df dimensions domain_weights indicator_weights poverty_threshold =
      Inr \<lparr>data2 = sdf, H2 = Fin 0, A2 = Fin 0, MPI2 = Fin 0, deprivation_proportions = props,
           indicator_contributions = ?ic, indicator_weights2 = iw'\<rparr>"
    using cols val core props ic H0 A0 M0 by (simp add: calculate_mpi2_def)
  have keys2: "fst ` set ?ic = fst ` set iw'"
    by (simp add: keys_foldl_dict_set)
  have zero2: "\<forall>c \<in> snd ` set ?ic. c = Fin 0"
    using values_foldl_dict_set [of "Fin 0" "[]" "map fst iw'"] by auto
  from run1 H0 A0 M0 ind1 zero1 have part1:
    "\<exists>res. calculate_mpi df dimensions domain_weights indicator_weights poverty_threshold = Inr res \<and>
            stat_H (mpi_stats res) = Fin 0 \<and> stat_A (mpi_stats res) = Fin 0 \<and>
            stat_MPI (mpi_stats res) = Fin 0 \<and>
            Indicator ` set (contribution_analysis res) = fst ` set iw' \<and>
            (\<forall>c \<in> set (contribution_analysis res). Contribution c = Fin 0)"
    by simp
  from run2 keys2 zero2 have part2:
    "\<exists>res. calculate_mpi2 df dimensions domain_weights indicator_weights poverty_threshold = Inr res \<and>
            H2 res = Fin 0 \<and> A2 res = Fin 0 \<and> MPI2 res = Fin 0 \<and>
            fst ` set (indicator_contributions res) = fst ` set iw' \<and>
            (\<forall>c \<in> snd ` set (indicator_contributions res). c = Fin 0)"
    by simp
  from H0 part1 part2 show ?thesis by (intro conjI)
qed

lemma ex_validation:
  "weight_validation ex_dims None None =
     Inr ([(''d1'', 1 / 2), (''d2'', 1 / 2)], [(''a'', 1 / 2), (''b'', 1 / 2)])"
  by (simp add: run_defs ex_dims_def)

lemma ex_core_no_poor:
  "\<exists>sdf stats. core_calculation ex_df (all_indicators_of ex_dims)
       [(''a'', 1 / 2), (''b'', 1 / 2)] 2 = Inr (sdf, stats) \<and>
     map Is_Poor (scored_rows sdf) = [False, False, False]"
  by (simp add: run_defs Let_def ex_df_def ex_dims_def)

theorem no_poor_observation_witness:
  "rows ex_df \<noteq> [] \<and>
   (\<exists>res. calculate_mpi ex_df ex_dims None None 2 = Inr res \<and>
      stat_H (mpi_stats res) = Fin 0 \<and> stat_A (mpi_stats res) = Fin 0 \<and>
      stat_MPI (mpi_stats res) = Fin 0 \<and>
      Indicator ` set (contribution_analysis res) = {''a'', ''b''} \<and>
      (\<forall>c \<in> set (contribution_analysis res). Contribution c = Fin 0)) \<and>
   (\<exists>res. calculate_mpi2 ex_df ex_dims None None 2 = Inr res \<and>
      H2 res = Fin 0 \<and> A2 res = Fin 0 \<and> MPI2 res = Fin 0 \<and>
      fst ` set (indicator_contributions res) = {''a'', ''b''} \<and>
      (\<forall>c \<in> snd ` set (indicator_contributions res). c = Fin 0))"
proof -
  have cols: "set (all_indicators_of ex_dims) \<subseteq> set (columns ex_df)"
    by (simp add: all_indicators_of_def ex_dims_def ex_df_def)
  have rows: "rows ex_df \<noteq> []" by (simp add: ex_df_def)
  have some: "[(''a'', 1 / 2 :: rat), (''b'', 1 / 2)] \<noteq> []" by simp
  from ex_core_no_poor obtain sdf stats where
    core: "core_calculation ex_df (all_indicators_of ex_dims)
             [(''a'', 1 / 2), (''b'', 1 / 2)] 2 = Inr (sdf, stats)"
    and p: "map Is_Poor (scored_rows sdf) = [False, False, False]"
    by (elim exE conjE)
  have "\<forall>b \<in> set (map Is_Poor (scored_rows sdf)). \<not> b" unfolding p by simp
  then have none: "\<forall>r \<in> set (scored_rows sdf). \<not> Is_Poor r" by simp
  from no_poor_observation [OF cols ex_validation core rows none some] rows
  show ?thesis by simp
qed

text \<open>
  Without any weighted indicator (domain weights given, no domain listed) the run of
  MPI.py ends in the KeyError of \<open>sort_values\<close>.
\<close>

lemma no_weighted_indicator:
  "calculate_mpi ex_df [] (Some [(''d1'', 1)]) None (1 / 3) = Inl (KeyError ''Contribution'')"
  by (simp add: run_defs Let_def ex_df_def)

section \<open>Equal weighting\<close>

lemma dict_set_new: "k \<notin> fst ` set d \<Longrightarrow> dict_set d k v = d @ [(k, v)]"
  by (induction d) auto

lemma distinct_dict_set: "distinct (map fst d) \<Longrightarrow> distinct (map fst (dict_set d k v))"
proof (induction d)
  case Nil
  then show ?case by simp
next
  case (Cons p d)
  obtain k' v' where p: "p = (k', v')" by (cases p)
  from Cons have "k' \<notin> fst ` set d" "distinct (map fst (dict_set d k v))" by (auto simp: p)
  then show ?case using Cons.prems by (auto simp: p keys_dict_set)
qed

lemma distinct_foldl_dict_set:
  "distinct (map fst d) \<Longrightarrow> distinct (map fst (foldl (\<lambda>acc ind. dict_set acc ind v) d inds))"
  by (induction inds arbitrary: d) (simp_all add: distinct_dict_set)

lemma map_of_foldl_dict_set:
  "map_of (foldl (\<lambda>acc ind. dict_set acc ind v) d inds) k =
     (if k \<in> set inds then Some v else map_of d k)"
  by (induction inds arbitrary: d) (auto simp: map_of_dict_set)

lemma sum_values_distinct:
  "distinct (map fst d) \<Longrightarrow>
     sum_list (map snd d) = (\<Sum>k \<in> fst ` set d. the (map_of d k))"
proof (induction d)
  case Nil
  then show ?case by simp
next
  case (Cons p d)
  obtain k v where p: "p = (k, v)" by (cases p)
  from Cons.prems have nk: "k \<notin> fst ` set d" and dd: "distinct (map fst d)" by (auto simp: p)
  have "(\<Sum>k' \<in> fst ` set (p # d). the (map_of (p # d) k')) =
        v + (\<Sum>k' \<in> fst ` set d. the (map_of (p # d) k'))"
    using nk by (simp add: p)
  also have "(\<Sum>k' \<in> fst ` set d. the (map_of (p # d) k')) = (\<Sum>k' \<in> fst ` set d. the (map_of d k'))"
    using nk by (intro sum.cong) (auto simp: p)
  finally show ?case using Cons.IH [OF dd] by (simp add: p)
qed

lemma sum_subscripts_const:
  "\<forall>i \<in> set inds. map_of d i = Some c \<Longrightarrow>
     sum_subscripts d inds = Inr (of_nat (length inds) * c)"
  by (induction inds) (simp_all add: subscript_def algebra_simps)

lemma equal_domain_weights_const:
  assumes "\<forall>i \<in> set (all_indicators_of dimensions). map_of iw i = Some c"
    and "distinct (map fst dimensions)"
    and "fst ` set dimensions \<inter> fst ` set acc = {}"
  shows "equal_domain_weights dimensions iw acc =
           Inr (acc @ map (\<lambda>(domain, indicators). (domain, of_nat (length indicators) * c)) dimensions)"
  using assms
proof (induction dimensions arbitrary: acc)
  case Nil
  then show ?case by simp
next
  case (Cons p dimensions)
  obtain domain indicators where p: "p = (domain, indicators)" by (cases p)
  from Cons.prems(1) have here: "\<forall>i \<in> set indicators. map_of iw i = Some c"
    and rest: "\<forall>i \<in> set (all_indicators_of dimensions). map_of iw i = Some c"
    by (auto simp: p all_indicators_of_def)
  from Cons.prems(3) have new: "domain \<notin> fst ` set acc" by (auto simp: p)
  from Cons.prems(2,3) have disj:
    "fst ` set dimensions \<inter> fst ` set (acc @ [(domain, of_nat (length indicators) * c)]) = {}"
    and dd: "distinct (map fst dimensions)"
    by (auto simp: p)
  from Cons.IH [OF rest dd disj] show ?case
    by (simp add: p sum_subscripts_const [OF here] dict_set_new [OF new])
qed

lemma length_all_indicators:
  "(\<Sum>(domain, indicators)\<leftarrow>dimensions. (of_nat (length indicators) :: rat)) =
     of_nat (length (all_indicators_of dimensions))"
  by (induction dimensions) (auto simp: all_indicators_of_def)

lemma sum_list_divide: "(\<Sum>x\<leftarrow>xs. f x / c) = (\<Sum>x\<leftarrow>xs. f x) / (c :: rat)"
  by (induction xs) (simp_all add: add_divide_distrib)

text \<open>
  Claim C10, as stated, fails where an indicator is listed twice: the equal weights
  are 1/n with n the length of the listing, but the resolved dict has one entry per
  distinct indicator, so its values sum to less than 1.
\<close>

theorem equal_weights_sum_counterexample:
  "weight_validation dup_dims None None =
     Inr ([(''d1'', 1 / 2), (''d2'', 1 / 2)], [(''x'', 1 / 2)]) \<and>
   length (all_indicators_of dup_dims) = 2 \<and>
   sum_list (map snd [(''x'', 1 / 2 :: rat)]) \<noteq> 1"
  by (simp add: run_defs dup_dims_def)

text \<open>
  Claim C10, amended. With neither weight dict given (absent or empty): when
  \<open>dimensions\<close> lists no indicator, \<open>calculate_mpi\<close> raises the ValueError "No indicators
  defined"; when it lists n >= 1 indicators, validation succeeds, every listed indicator
  has weight 1/n, every domain has weight (number of its indicators)/n, the weights
  summed along the listing give 1, and the resolved indicator weights sum to 1 when no
  indicator is listed twice.
\<close>

theorem equal_weights_resolution:
  assumes "\<not> provided domain_weights" and "\<not> provided indicator_weights"
    and "distinct (map fst dimensions)"
  shows "(all_indicators_of dimensions = [] \<longrightarrow>
            calculate_mpi df dimensions domain_weights indicator_weights poverty_threshold =
              Inl (ValueError NoIndicatorsDefined)) \<and>
         (all_indicators_of dimensions \<noteq> [] \<longrightarrow>
            (\<exists>dw' iw'. weight_validation dimensions domain_weights indicator_weights = Inr (dw', iw') \<and>
               fst ` set iw' = set (all_indicators_of dimensions) \<and>
               (\<forall>ind \<in> set (all_indicators_of dimensions).
                  subscript iw' ind = Inr (1 / of_nat (length (all_indicators_of dimensions)))) \<and>
               map fst dw' = map fst dimensions \<and>
               (\<forall>(domain, indicators) \<in> set dimensions.
                  subscript dw' domain =
                    Inr (of_nat (length indicators) / of_nat (length (all_indicators_of dimensions)))) \<and>
               (\<Sum>ind\<leftarrow>all_indicators_of dimensions. dict_get iw' ind 0) = 1 \<and>
               (distinct (all_indicators_of dimensions) \<longrightarrow> sum_list (map snd iw') = 1)))"
proof (intro conjI impI)
  assume "all_indicators_of dimensions = []"
  with assms(1,2) show "calculate_mpi df dimensions domain_weights indicator_weights poverty_threshold =
      Inl (ValueError NoIndicatorsDefined)"
    by (simp add: calculate_mpi_def weight_validation_def resolve_cases_def equal_weighting_def)
next
  let ?all = "all_indicators_of dimensions"
  let ?n = "of_nat (length ?all) :: rat"
  let ?iw = "foldl (\<lambda>acc ind. dict_set acc ind (1 / ?n)) [] ?all"
  let ?dw = "map (\<lambda>(domain, indicators). (domain, of_nat (length indicators) * (1 / ?n))) dimensions"
  assume ne: "?all \<noteq> []"
  then have n0: "?n \<noteq> 0" by simp
  have mo: "\<forall>i \<in> set ?all. map_of ?iw i = Some (1 / ?n)"
    by (simp add: map_of_foldl_dict_set)
  have edw: "equal_domain_weights dimensions ?iw [] = Inr ?dw"
    using equal_domain_weights_const [OF mo assms(3), of "[]"] by simp
  have ew: "equal_weighting dimensions = Inr (?dw, ?iw)"
    using ne edw by (simp add: equal_weighting_def Let_def)
  have "sum_list (map snd ?dw) = (\<Sum>(domain, indicators)\<leftarrow>dimensions. of_nat (length indicators)) * (1 / ?n)"
    by (simp add: comp_def case_prod_unfold sum_list_divide)
  also have "\<dots> = 1" using n0 by (simp add: length_all_indicators)
  finally have dsum: "sum_list (map snd ?dw) = 1" .
  have keys: "fst ` set ?iw = set ?all" by (simp add: keys_foldl_dict_set)
  have val: "weight_validation dimensions domain_weights indicator_weights = Inr (?dw, ?iw)"
    using assms(1,2) ew dsum keys
    by (simp add: weight_validation_def resolve_cases_def final_checks_def isclose_def rtol_default_def)
  have sub: "\<forall>ind \<in> set ?all. subscript ?iw ind = Inr (1 / ?n)"
    using mo by (simp add: subscript_def)
  have dkeys: "map fst ?dw = map fst dimensions" by (simp add: comp_def case_prod_unfold)
  have dsub: "\<forall>(domain, indicators) \<in> set dimensions.
                subscript ?dw domain = Inr (of_nat (length indicators) / ?n)"
  proof (clarify)
    fix domain indicators assume "(domain, indicators) \<in> set dimensions"
    then have "(domain, of_nat (length indicators) * (1 / ?n)) \<in> set ?dw" by force
    moreover have "distinct (map fst ?dw)" unfolding dkeys by (rule assms(3))
    ultimately have "map_of ?dw domain = Some (of_nat (length indicators) * (1 / ?n))"
      by (rule map_of_is_SomeI [rotated])
    then show "subscript ?dw domain = Inr (of_nat (length indicators) / ?n)"
      by (simp add: subscript_def)
  qed
  have "(\<Sum>ind\<leftarrow>?all. dict_get ?iw ind 0) = (\<Sum>ind\<leftarrow>?all. 1 / ?n)"
    using mo by (intro arg_cong [where f = sum_list] map_cong refl) (simp add: dict_get_def)
  also have "\<dots> = 1" using n0 by (simp add: sum_list_triv)
  finally have lsum: "(\<Sum>ind\<leftarrow>?all. dict_get ?iw ind 0) = 1" .
  have vsum: "distinct ?all \<longrightarrow> sum_list (map snd ?iw) = 1"
  proof
    assume d: "distinct ?all"
    have "sum_list (map snd ?iw) = (\<Sum>k \<in> fst ` set ?iw. the (map_of ?iw k))"
      by (rule sum_values_distinct) (simp add: distinct_foldl_dict_set)
    also have "\<dots> = (\<Sum>k \<in> set ?all. 1 / ?n)"
      unfolding keys using mo by (intro sum.cong refl) simp
    also have "\<dots> = of_nat (card (set ?all)) * (1 / ?n)" by simp
    also have "\<dots> = 1" using d n0 by (simp add: distinct_card)
    finally show "sum_list (map snd ?iw) = 1" .
  qed
  from val keys sub dkeys dsub lsum vsum
  show "\<exists>dw' iw'. weight_validation dimensions domain_weights indicator_weights = Inr (dw', iw') \<and>
               fst ` set iw' = set (all_indicators_of dimensions) \<and>
               (\<forall>ind \<in> set (all_indicators_of dimensions).
                  subscript iw' ind = Inr (1 / of_nat (length (all_indicators_of dimensions)))) \<and>
               map fst dw' = map fst dimensions \<and>
               (\<forall>(domain, indicators) \<in> set dimensions.
                  subscript dw' domain =
                    Inr (of_nat (length indicators) / of_nat (length (all_indicators_of dimensions)))) \<and>
               (\<Sum>ind\<leftarrow>all_indicators_of dimensions. dict_get iw' ind 0) = 1 \<and>
               (distinct (all_indicators_of dimensions) \<longrightarrow> sum_list (map snd iw') = 1)"
    by (intro exI [of _ ?dw] exI [of _ ?iw] conjI)
qed


theorem equal_weights_resolution_witness:
  "\<not> provided (None :: rat dict option) \<and> distinct (map fst ex_dims) \<and>
   all_indicators_of ex_dims \<noteq> [] \<and> distinct (all_indicators_of ex_dims) \<and>
   calculate_mpi ex_df [] None None (1 / 3) = Inl (ValueError NoIndicatorsDefined) \<and>
   (\<exists>dw' iw'. weight_validation ex_dims None None = Inr (dw', iw') \<and>
      subscript iw' ''a'' = Inr (1 / 2) \<and> subscript iw' ''b'' = Inr (1 / 2) \<and>
      subscript dw' ''d1'' = Inr (1 / 2) \<and> subscript dw' ''d2'' = Inr (1 / 2) \<and>
      sum_list (map snd iw') = 1)"
proof -
  have np: "\<not> provided (None :: rat dict option)" by (simp add: provided_def)
  have d0: "distinct (map fst ([] :: dimensions))" by simp
  have e0: "all_indicators_of [] = []" by (simp add: all_indicators_of_def)
  have d1: "distinct (map fst ex_dims)" by (simp add: ex_dims_def)
  have all: "all_indicators_of ex_dims = [''a'', ''b'']"
    by (simp add: all_indicators_of_def ex_dims_def)
  from equal_weights_resolution [OF np np d0, of ex_df "1 / 3"] e0
  have none: "calculate_mpi ex_df [] None None (1 / 3) = Inl (ValueError NoIndicatorsDefined)"
    by simp
  from equal_weights_resolution [OF np np d1, of ex_df "1 / 3"]
  have "\<exists>dw' iw'. weight_validation ex_dims None None = Inr (dw', iw') \<and>
      subscript iw' ''a'' = Inr (1 / 2) \<and> subscript iw' ''b'' = Inr (1 / 2) \<and>
      subscript dw' ''d1'' = Inr (1 / 2) \<and> subscript dw' ''d2'' = Inr (1 / 2) \<and>
      sum_list (map snd iw') = 1"
    by (simp add: all) (simp add: ex_dims_def, elim exE conjE, intro exI conjI, assumption+)
  with np d1 none show ?thesis by (simp add: all)
qed

section \<open>Validation errors\<close>

lemma check_alignment_iff:
  "check_alignment dimensions dw iw = Inr () \<longleftrightarrow>
     (\<forall>(domain, indicators) \<in> set dimensions.
        isclose (dict_get dw domain 0) (\<Sum>ind\<leftarrow>indicators. dict_get iw ind 0) rtol_default (1 / 1000))"
  by (induction dimensions dw iw rule: check_alignment.induct) (auto simp: Let_def)

lemma check_alignment_Inl:
  "check_alignment dimensions dw iw = Inl e \<Longrightarrow> \<exists>d. e = ValueError (DomainWeightMismatch d)"
  by (induction dimensions dw iw rule: check_alignment.induct) (auto simp: Let_def split: if_splits)

lemma spread_domain_weights_Inr:
  "\<forall>(domain, indicators) \<in> set dimensions. indicators \<noteq> [] \<Longrightarrow>
     spread_domain_weights dimensions dw acc =
       Inr (foldl (\<lambda>acc (domain, indicators).
                 foldl (\<lambda>acc ind. dict_set acc ind (dict_get dw domain 0 / of_nat (length indicators)))
                   acc indicators) acc dimensions)"
  by (induction dimensions dw acc rule: spread_domain_weights.induct) (auto simp: Let_def)

lemma spread_domain_weights_Inl:
  "\<exists>(domain, indicators) \<in> set dimensions. indicators = [] \<Longrightarrow>
     \<exists>d. spread_domain_weights dimensions dw acc = Inl (ValueError (DomainHasNoIndicators d))"
proof (induction dimensions arbitrary: acc)
  case Nil
  then show ?case by simp
next
  case (Cons p dimensions)
  obtain domain indicators where p: "p = (domain, indicators)" by (cases p)
  show ?case
  proof (cases "indicators = []")
    case True
    then show ?thesis by (simp add: p)
  next
    case False
    with Cons.prems have "\<exists>(domain, indicators) \<in> set dimensions. indicators = []"
      by (auto simp: p)
    from Cons.IH [OF this] False show ?thesis by (simp add: p Let_def)
  qed
qed

lemma equal_domain_weights_fold:
  "\<forall>i \<in> set (all_indicators_of dimensions). map_of iw i = Some (1 / n) \<Longrightarrow>
     equal_domain_weights dimensions iw acc =
       Inr (foldl (\<lambda>acc (domain, indicators). dict_set acc domain (of_nat (length indicators) / n))
              acc dimensions)"
proof (induction dimensions arbitrary: acc)
  case Nil
  then show ?case by simp
next
  case (Cons p dimensions)
  obtain domain indicators where p: "p = (domain, indicators)" by (cases p)
  from Cons.prems have here: "\<forall>i \<in> set indicators. map_of iw i = Some (1 / n)"
    and rest: "\<forall>i \<in> set (all_indicators_of dimensions). map_of iw i = Some (1 / n)"
    by (auto simp: p all_indicators_of_def)
  from Cons.IH [OF rest] show ?case
    by (simp add: p sum_subscripts_const [OF here])
qed

lemma equal_weighting_eq:
  "equal_weighting dimensions =
     (if all_indicators_of dimensions = [] then Inl (ValueError NoIndicatorsDefined)
      else Inr (resolved_domain_weights dimensions None None,
                resolved_indicator_weights dimensions None None))"
proof -
  let ?all = "all_indicators_of dimensions"
  let ?n = "of_nat (length ?all) :: rat"
  let ?iw = "foldl (\<lambda>acc ind. dict_set acc ind (1 / ?n)) [] ?all"
  have mo: "\<forall>i \<in> set ?all. map_of ?iw i = Some (1 / ?n)"
    by (simp add: map_of_foldl_dict_set)
  show ?thesis
    by (simp add: equal_weighting_def Let_def equal_domain_weights_fold [OF mo]
        resolved_domain_weights_def resolved_indicator_weights_def provided_def)
qed

lemma resolve_cases_valid:
  assumes "\<not> case_invalid dimensions dw iw"
  shows "resolve_cases dimensions dw iw =
           Inr (resolved_domain_weights dimensions dw iw, resolved_indicator_weights dimensions dw iw)"
proof (cases "provided dw")
  case dwp: True
  show ?thesis
  proof (cases "provided iw")
    case True
    with dwp assms have "check_alignment dimensions (dict_of dw) (dict_of iw) = Inr ()"
      unfolding check_alignment_iff by (auto simp: case_invalid_def)
    with dwp True show ?thesis
      by (simp add: resolve_cases_def resolved_domain_weights_def resolved_indicator_weights_def)
  next
    case False
    with dwp assms have "\<forall>(domain, indicators) \<in> set dimensions. indicators \<noteq> []"
      by (auto simp: case_invalid_def)
    from spread_domain_weights_Inr [OF this] dwp False show ?thesis
      by (simp add: resolve_cases_def resolved_domain_weights_def resolved_indicator_weights_def)
  qed
next
  case dwn: False
  show ?thesis
  proof (cases "provided iw")
    case True
    with dwn show ?thesis
      by (simp add: resolve_cases_def resolved_domain_weights_def resolved_indicator_weights_def)
  next
    case False
    with dwn assms have ne: "all_indicators_of dimensions \<noteq> []" by (simp add: case_invalid_def)
    from dwn False have "resolved_domain_weights dimensions dw iw = resolved_domain_weights dimensions None None"
      "resolved_indicator_weights dimensions dw iw = resolved_indicator_weights dimensions None None"
      by (simp_all add: resolved_domain_weights_def resolved_indicator_weights_def provided_def)
    with dwn False ne show ?thesis
      by (simp add: resolve_cases_def equal_weighting_eq)
  qed
qed

lemma resolve_cases_invalid:
  assumes "case_invalid dimensions dw iw"
  shows "\<exists>e. resolve_cases dimensions dw iw = Inl (ValueError e)"
proof (cases "provided dw")
  case dwp: True
  show ?thesis
  proof (cases "provided iw")
    case True
    with dwp assms have "check_alignment dimensions (dict_of dw) (dict_of iw) \<noteq> Inr ()"
      unfolding check_alignment_iff by (auto simp: case_invalid_def)
    then obtain e where "check_alignment dimensions (dict_of dw) (dict_of iw) = Inl e"
      by (cases "check_alignment dimensions (dict_of dw) (dict_of iw)") auto
    with check_alignment_Inl [OF this] dwp True show ?thesis
      by (auto simp: resolve_cases_def)
  next
    case False
    with dwp assms have "\<exists>(domain, indicators) \<in> set dimensions. indicators = []"
      by (auto simp: case_invalid_def)
    from spread_domain_weights_Inl [OF this, of "dict_of dw" "[]"] dwp False show ?thesis
      by (auto simp: resolve_cases_def)
  qed
next
  case dwn: False
  show ?thesis
  proof (cases "provided iw")
    case True
    with dwn assms show ?thesis by (simp add: case_invalid_def)
  next
    case False
    with dwn assms have "all_indicators_of dimensions = []" by (simp add: case_invalid_def)
    with dwn False show ?thesis by (simp add: resolve_cases_def equal_weighting_eq)
  qed
qed

lemma weight_validation_char:
  "weight_validation dimensions dw iw =
     (if case_invalid dimensions dw iw then weight_validation dimensions dw iw
      else final_checks (all_indicators_of dimensions)
             (resolved_domain_weights dimensions dw iw) (resolved_indicator_weights dimensions dw iw))"
  by (simp add: weight_validation_def resolve_cases_valid)

lemma weight_validation_ValueError_iff:
  "(\<exists>e. weight_validation dimensions dw iw = Inl (ValueError e)) \<longleftrightarrow>
     case_invalid dimensions dw iw \<or>
     (resolved_domain_weights dimensions dw iw \<noteq> [] \<and>
       \<not> isclose (sum_list (map snd (resolved_domain_weights dimensions dw iw))) 1 rtol_default (1 / 1000)) \<or>
     (resolved_indicator_weights dimensions dw iw \<noteq> [] \<and>
       (\<exists>ind \<in> set (all_indicators_of dimensions).
          ind \<notin> fst ` set (resolved_indicator_weights dimensions dw iw)))"
proof (cases "case_invalid dimensions dw iw")
  case True
  from resolve_cases_invalid [OF this] True show ?thesis
    by (auto simp: weight_validation_def)
next
  case False
  then show ?thesis
    by (subst weight_validation_char) (auto simp: final_checks_def)
qed

lemma weight_validation_total:
  "(\<exists>e. weight_validation dimensions dw iw = Inl (ValueError e)) \<or>
   weight_validation dimensions dw iw =
     Inr (resolved_domain_weights dimensions dw iw, resolved_indicator_weights dimensions dw iw)"
proof (cases "case_invalid dimensions dw iw")
  case True
  from resolve_cases_invalid [OF this] show ?thesis
    by (auto simp: weight_validation_def)
next
  case False
  then show ?thesis
    by (subst (1 2) weight_validation_char) (auto simp: final_checks_def)
qed


lemma core_calculation_total:
  assumes "set inds \<subseteq> fst ` set iw" and "distinct inds"
  shows "\<exists>sdf stats. core_calculation df inds iw thr = Inr (sdf, stats)"
proof -
  from score_rows_total [OF assms] obtain srs where "score_rows (rows df) iw inds thr = Inr srs"
    by blast
  then show ?thesis by (simp add: core_calculation_def Let_def)
qed

lemma contribution_data_never_ValueError: "contribution_data sdf iw H \<noteq> Inl (ValueError e)"
  by (induction iw) (auto split: sum.splits if_splits)

lemma analysis_never_ValueError:
  "get_contribution_analysis sdf iw H M \<noteq> Inl (ValueError e)"
  "get_deprivation_proportions sdf inds \<noteq> Inl (ValueError e)"
  using contribution_data_never_ValueError [of sdf iw H e]
  by (auto simp: get_contribution_analysis_def get_deprivation_proportions_def
      split: sum.splits if_splits)

lemma invalid_input_eq:
  "invalid_input df dimensions dw iw \<longleftrightarrow>
     \<not> set (all_indicators_of dimensions) \<subseteq> set (columns df) \<or>
     (\<exists>e. weight_validation dimensions dw iw = Inl (ValueError e))"
  unfolding weight_validation_ValueError_iff invalid_input_def case_invalid_def by blast

text \<open>
  Claim C7, amended. When \<open>dimensions\<close> lists no indicator more than once,
  \<open>calculate_mpi\<close> raises a ValueError exactly on the inputs of \<open>invalid_input\<close>: a listed
  indicator is not a column of the table; both weight dicts are given and some domain's
  weight is not close to the sum of its indicators' weights; only domain weights are
  given and some domain lists no indicator; no weights are given and no indicator is
  listed; the resolved domain weights are non-empty and their sum is not close to 1; the
  resolved indicator weights are non-empty and some listed indicator has none. "Close"
  is \<open>np.isclose\<close> with \<open>atol = 0.001\<close> and the default \<open>rtol\<close>, that is
  \<open>|a - b| <= 0.001 + 0.00001 * |b|\<close>. Each of these ValueErrors comes from the column
  check or from the weight validation, hence before any score is computed; on every
  other such input the validation succeeds and the scores, the classification and H, A
  and MPI are computed. (An indicator listed more than once passes the validation and
  fails later, in line 84: \<open>repeated_indicator_ValueError\<close>.)
\<close>

theorem value_error_iff_invalid_input:
  assumes once: "distinct (all_indicators_of dimensions)"
  shows
  "((\<exists>e. calculate_mpi df dimensions domain_weights indicator_weights poverty_threshold =
           Inl (ValueError e)) \<longleftrightarrow>
      invalid_input df dimensions domain_weights indicator_weights) \<and>
   (\<forall>e. calculate_mpi df dimensions domain_weights indicator_weights poverty_threshold =
           Inl (ValueError e) \<longrightarrow>
        \<not> set (all_indicators_of dimensions) \<subseteq> set (columns df) \<and> e = MissingColumns \<or>
        weight_validation dimensions domain_weights indicator_weights = Inl (ValueError e)) \<and>
   (\<not> invalid_input df dimensions domain_weights indicator_weights \<longrightarrow>
      (\<exists>dw' iw' sdf stats.
         weight_validation dimensions domain_weights indicator_weights = Inr (dw', iw') \<and>
         core_calculation df (all_indicators_of dimensions) iw' poverty_threshold = Inr (sdf, stats)))"
proof (cases "set (all_indicators_of dimensions) \<subseteq> set (columns df)")
  case False
  then have "calculate_mpi df dimensions domain_weights indicator_weights poverty_threshold =
      Inl (ValueError MissingColumns)"
    by (simp add: calculate_mpi_def)
  with False show ?thesis by (simp add: invalid_input_eq)
next
  case cols: True
  let ?run = "calculate_mpi df dimensions domain_weights indicator_weights poverty_threshold"
  let ?val = "weight_validation dimensions domain_weights indicator_weights"
  from weight_validation_total [of dimensions domain_weights indicator_weights]
  consider e where "?val = Inl (ValueError e)"
    | "?val = Inr (resolved_domain_weights dimensions domain_weights indicator_weights,
                  resolved_indicator_weights dimensions domain_weights indicator_weights)"
    by blast
  then show ?thesis
  proof cases
    case 1
    with cols have "?run = Inl (ValueError e)" by (simp add: calculate_mpi_def)
    with 1 cols show ?thesis by (simp add: invalid_input_eq)
  next
    case 2
    let ?iw = "resolved_indicator_weights dimensions domain_weights indicator_weights"
    from core_calculation_total [OF weight_validation_keys [OF 2] once] obtain sdf stats where
      core: "core_calculation df (all_indicators_of dimensions) ?iw poverty_threshold = Inr (sdf, stats)"
      by blast
    have nov: "\<not> (\<exists>e. ?run = Inl (ValueError e))"
      using cols 2 core analysis_never_ValueError
      by (auto simp: calculate_mpi_def split: sum.splits)
    have valid: "\<not> invalid_input df dimensions domain_weights indicator_weights"
      using cols 2 by (simp add: invalid_input_eq)
    from nov valid 2 core show ?thesis by simp
  qed
qed

text \<open>
  Claim C7, as stated, fails: with domain weights only, a domain that lists no
  indicator raises a ValueError (line 53) although every listed indicator is a column,
  the domain weights sum to 1 and every listed indicator gets a weight.
\<close>

theorem value_error_counterexample:
  "calculate_mpi nodom_df nodom_dims nodom_weights None (1 / 3) =
     Inl (ValueError (DomainHasNoIndicators ''d2'')) \<and>
   \<not> claimed_invalid nodom_df nodom_dims nodom_weights None"
  by (simp add: run_defs claimed_invalid_def resolved_domain_weights_def
      resolved_indicator_weights_def nodom_df_def nodom_dims_def nodom_weights_def)


theorem value_error_iff_invalid_input_witness:
  "distinct (all_indicators_of nodom_dims) \<and> distinct (all_indicators_of ex_dims) \<and>
   invalid_input nodom_df nodom_dims nodom_weights None \<and>
   (\<exists>e. calculate_mpi nodom_df nodom_dims nodom_weights None (1 / 3) = Inl (ValueError e)) \<and>
   \<not> invalid_input ex_df ex_dims None None \<and>
   (\<exists>dw' iw' sdf stats.
      weight_validation ex_dims None None = Inr (dw', iw') \<and>
      core_calculation ex_df (all_indicators_of ex_dims) iw' (1 / 3) = Inr (sdf, stats))"
proof -
  have d1: "distinct (all_indicators_of nodom_dims)"
    by (simp add: all_indicators_of_def nodom_dims_def)
  have d2: "distinct (all_indicators_of ex_dims)"
    by (simp add: all_indicators_of_def ex_dims_def)
  have inv: "invalid_input nodom_df nodom_dims nodom_weights None"
    by (simp add: invalid_input_def provided_def nodom_dims_def nodom_weights_def)
  have valid: "\<not> invalid_input ex_df ex_dims None None"
    by (simp add: invalid_input_def provided_def resolved_domain_weights_def
        resolved_indicator_weights_def all_indicators_of_def ex_dims_def ex_df_def
        isclose_def rtol_default_def)
  from value_error_iff_invalid_input [OF d1, of nodom_df nodom_weights None "1 / 3"] inv
  have err: "\<exists>e. calculate_mpi nodom_df nodom_dims nodom_weights None (1 / 3) = Inl (ValueError e)"
    by simp
  from value_error_iff_invalid_input [OF d2, of ex_df None None "1 / 3"] valid
  have ok: "\<exists>dw' iw' sdf stats.
      weight_validation ex_dims None None = Inr (dw', iw') \<and>
      core_calculation ex_df (all_indicators_of ex_dims) iw' (1 / 3) = Inr (sdf, stats)"
    by simp
  from d1 d2 inv err valid ok show ?thesis by (intro conjI)
qed

text \<open>
  An indicator listed more than once: the validation passes, the scores cannot be
  assigned, and the run ends in the ValueError of line 84.
\<close>

lemma repeated_indicator_ValueError:
  assumes "\<not> invalid_input df dimensions domain_weights indicator_weights"
    and "\<not> distinct (all_indicators_of dimensions)"
  shows "calculate_mpi df dimensions domain_weights indicator_weights poverty_threshold =
           Inl (ValueError ScoreNotOneColumn)"
proof -
  let ?iw = "resolved_indicator_weights dimensions domain_weights indicator_weights"
  from assms(1) have cols: "set (all_indicators_of dimensions) \<subseteq> set (columns df)"
    and nov: "\<not> (\<exists>e. weight_validation dimensions domain_weights indicator_weights = Inl (ValueError e))"
    by (simp_all add: invalid_input_eq)
  with weight_validation_total [of dimensions domain_weights indicator_weights]
  have val: "weight_validation dimensions domain_weights indicator_weights =
      Inr (resolved_domain_weights dimensions domain_weights indicator_weights, ?iw)"
    by blast
  from score_each_row_total [OF weight_validation_keys [OF val]] obtain srs where
    "score_each_row (rows df) ?iw (all_indicators_of dimensions) poverty_threshold = Inr srs"
    by blast
  with assms(2) have "core_calculation df (all_indicators_of dimensions) ?iw poverty_threshold =
      Inl (ValueError ScoreNotOneColumn)"
    by (simp add: core_calculation_def score_rows_def)
  with cols val show ?thesis by (simp add: calculate_mpi_def)
qed

lemma repeated_indicator_run:
  "\<not> invalid_input repeated_df dup_dims None None \<and>
   calculate_mpi repeated_df dup_dims None None (1 / 3) = Inl (ValueError ScoreNotOneColumn)"
  by (simp add: run_defs invalid_input_def resolved_domain_weights_def
      resolved_indicator_weights_def repeated_df_def dup_dims_def)

text \<open>
  The tolerance is not 0.001 flat: domain weights that sum to 1.001005 pass the check
  of line 75, since \<open>0.001005 <= 0.001 + 0.00001 * 1\<close>.
\<close>

lemma tolerance_is_relative:
  "isclose (1001005 / 1000000) 1 rtol_default (1 / 1000) \<and>
   \<bar>1001005 / 1000000 - 1 :: rat\<bar> > 1 / 1000 \<and>
   weight_validation [(''d'', [''a''])] (Some [(''d'', 1001005 / 1000000)]) None =
     Inr ([(''d'', 1001005 / 1000000)], [(''a'', 1001005 / 1000000)])"
  by (simp add: run_defs)

section \<open>Contributions of the indicators\<close>

text \<open>
  Claim C2 at a failing input. Validation accepts indicator weights with a key that no
  domain lists; the loop over \<open>indicator_weights.items()\<close> then gives that column a
  contribution too. With H = A = MPI = 1 the contributions of \<open>a\<close> and \<open>b\<close> are 1 and 1/2
  and sum to 3/2, not to MPI; the version of MPI_contributions.py stops in its own
  consistency check with "Contribution calculation error".
\<close>

theorem contributions_exceed_MPI:
  "map_sum id (\<lambda>res. (mpi_stats res, weights res,
                        map (\<lambda>c. (Indicator c, Contribution c)) (contribution_analysis res)))
     (calculate_mpi extra_df extra_dims None extra_weights (1 / 3)) =
     Inr (\<lparr>stat_H = Fin 1, stat_A = Fin 1, stat_MPI = Fin 1\<rparr>,
          [(''a'', 1), (''b'', 1 / 2)],
          [(''a'', Fin 1), (''b'', Fin (1 / 2))]) \<and>
   calculate_mpi2 extra_df extra_dims None extra_weights (1 / 3) =
     Inl (ValueError ContributionCalculationError)"
  by (simp add: run_defs Let_def extra_df_def extra_dims_def extra_weights_def)

text \<open>
  The sum of the contributions is MPI when the keys of the resolved indicator weights
  are exactly the listed indicators, each listed once, and none of them is named like
  one of the two columns that the scoring adds.
\<close>

lemma mset_insert_desc: "mset (insert_desc key x ys) = add_mset x (mset ys)"
  by (induction ys) auto

lemma mset_sort_values_desc: "mset (sort_values_desc key xs) = mset xs"
  by (induction xs) (simp_all add: sort_values_desc_def mset_insert_desc)

lemma sum_list_perm:
  assumes "mset xs = mset ys"
  shows "sum_list (map f xs) = sum_list (map (f :: 'a \<Rightarrow> rat) ys)"
proof -
  from assms have "sum_mset (mset (map f xs)) = sum_mset (mset (map f ys))" by simp
  then show ?thesis by (simp only: sum_mset_sum_list)
qed

lemma sum_list_scale:
  "(\<Sum>p\<leftarrow>ps. a * g p * (f p / n)) = (a / n) * (\<Sum>p\<leftarrow>ps. g p * (f p :: rat))"
  by (induction ps) (simp_all add: algebra_simps)

lemma sum_list_sort_values_desc:
  "sum_list (map f (sort_values_desc key xs)) = sum_list (map (f :: 'a \<Rightarrow> rat) xs)"
  by (rule sum_list_perm) (rule mset_sort_values_desc)

lemma sum_list_swap:
  "(\<Sum>p\<leftarrow>ps. g p * (\<Sum>r\<leftarrow>rs. f r p)) = (\<Sum>r\<leftarrow>rs. \<Sum>p\<leftarrow>ps. g p * (f r p :: rat))"
proof (induction ps)
  case Nil
  then show ?case by simp
next
  case (Cons p ps)
  then show ?case by (simp add: sum_list_addf sum_list_const_mult)
qed

lemma dict_get_distinct:
  "distinct (map fst d) \<Longrightarrow> (k, v) \<in> set d \<Longrightarrow> dict_get d k dflt = v"
  by (simp add: dict_get_def)

lemma weighted_sum_by_items:
  assumes "distinct (map fst iw)" and "distinct inds" and "fst ` set iw = set inds"
  shows "(\<Sum>(ind, w)\<leftarrow>iw. w * x ind) = (\<Sum>ind\<leftarrow>inds. x ind * dict_get iw ind (0 :: rat))"
proof -
  have "mset inds = mset (map fst iw)"
    using set_eq_iff_mset_eq_distinct [OF assms(2,1)] assms(3) by simp
  then have "(\<Sum>ind\<leftarrow>inds. x ind * dict_get iw ind 0) = (\<Sum>ind\<leftarrow>map fst iw. x ind * dict_get iw ind 0)"
    by (rule sum_list_perm)
  also have "\<dots> = (\<Sum>p\<leftarrow>iw. x (fst p) * dict_get iw (fst p) 0)" by (simp add: comp_def)
  also have "\<dots> = (\<Sum>p\<leftarrow>iw. snd p * x (fst p))"
  proof (intro arg_cong [where f = sum_list] map_cong refl)
    fix p assume "p \<in> set iw"
    then have "(fst p, snd p) \<in> set iw" by simp
    from dict_get_distinct [OF assms(1) this] show "x (fst p) * dict_get iw (fst p) 0 = snd p * x (fst p)"
      by simp
  qed
  finally show ?thesis by (simp add: case_prod_unfold)
qed

lemma contribution_data_poor:
  assumes "gt H 0" and "fst ` set iw \<subseteq> set (scored_columns sdf)"
  shows "contribution_data sdf iw H =
     Inr (map (\<lambda>(ind, weight).
            (ind, weight,
             fmul (fmul H (Fin weight)) (mean (map (\<lambda>r. cell r ind) (poor_rows sdf))),
             mean (map (\<lambda>r. cell r ind) (poor_rows sdf)))) iw)"
  using assms by (induction iw) auto

lemma contributions_sum_to_MPI:
  assumes run: "calculate_mpi df dimensions domain_weights indicator_weights poverty_threshold = Inr res"
    and poor: "\<exists>r \<in> set (scored_rows (data res)). Is_Poor r"
    and di: "distinct (all_indicators_of dimensions)"
    and dw: "distinct (map fst (weights res))"
    and keys: "fst ` set (weights res) = set (all_indicators_of dimensions)"
    and names: "''Is_Poor'' \<notin> set (all_indicators_of dimensions)"
               "''Deprivation_Score'' \<notin> set (all_indicators_of dimensions)"
  shows "\<exists>cs. map Contribution (contribution_analysis res) = map Fin cs \<and>
              stat_MPI (mpi_stats res) = Fin (sum_list cs)"
proof -
  let ?all = "all_indicators_of dimensions"
  let ?iw = "weights res"
  let ?sdf = "data res"
  let ?poor = "poor_rows ?sdf"
  let ?n = "of_nat (length ?poor) :: rat"
  let ?h = "of_nat (length ?poor) / of_nat (length (scored_rows ?sdf)) :: rat"
  from calculate_mpi_Inr [OF run] obtain dw' where
    cols: "set ?all \<subseteq> set (columns df)"
    and core: "core_calculation df ?all ?iw poverty_threshold = Inr (?sdf, mpi_stats res)"
    and ca: "get_contribution_analysis ?sdf ?iw (stat_H (mpi_stats res)) (stat_MPI (mpi_stats res)) =
               Inr (contribution_analysis res)"
    by blast
  note sr = calculate_mpi_core(1) [OF run] and st = calculate_mpi_core(2) [OF run]
  from poor have pne: "?poor \<noteq> []" by (auto simp: poor_rows_def filter_empty_conv)
  then have rne: "scored_rows ?sdf \<noteq> []" by (auto simp: poor_rows_def)
  from pne have n0: "?n \<noteq> 0" by simp
  have H: "stat_H (mpi_stats res) = Fin ?h" using rne by (simp add: st stat_H_eq)
  have A: "stat_A (mpi_stats res) = Fin (sum_list (map Deprivation_Score ?poor) / ?n)"
    using pne by (simp add: st stat_A_eq)
  have M: "stat_MPI (mpi_stats res) = Fin (?h * (sum_list (map Deprivation_Score ?poor) / ?n))"
    using H A by (simp add: st mpi_statistics_def Let_def)
  have gtH: "gt (stat_H (mpi_stats res)) 0" using pne by (simp add: st gt_H_iff)
  have ksub: "fst ` set ?iw \<subseteq> set (scored_columns ?sdf)"
    using keys cols scored_columns_core [OF core] by blast
  let ?c = "\<lambda>(ind, w). ?h * w * ((\<Sum>r\<leftarrow>?poor. cell r ind) / ?n)"
  let ?rows = "map (\<lambda>(ind, weight).
            (ind, weight,
             fmul (fmul (stat_H (mpi_stats res)) (Fin weight)) (mean (map (\<lambda>r. cell r ind) ?poor)),
             mean (map (\<lambda>r. cell r ind) ?poor))) ?iw"
  let ?pct = "contribution_row_of (stat_MPI (mpi_stats res))"
  have car: "contribution_analysis res = sort_values_desc Contribution (map ?pct ?rows)"
    using ca contribution_data_poor [OF gtH ksub]
    by (simp add: get_contribution_analysis_def split: if_splits)
  have conts: "map Contribution (map ?pct ?rows) = map (\<lambda>p. Fin (?c p)) ?iw"
    using pne by (simp add: H mean_def comp_def case_prod_unfold contribution_row_of_def)
  define cs where "cs = map (\<lambda>c. case Contribution c of Fin x \<Rightarrow> x | NaN \<Rightarrow> 0) (contribution_analysis res)"
  have allfin: "\<forall>c \<in> set (contribution_analysis res). \<exists>x. Contribution c = Fin x"
  proof
    fix c assume "c \<in> set (contribution_analysis res)"
    then have "c \<in> set (map ?pct ?rows)" by (simp add: car set_sort_values_desc)
    then have "Contribution c \<in> Contribution ` set (map ?pct ?rows)" by (rule imageI)
    then have "Contribution c \<in> set (map Contribution (map ?pct ?rows))" by (simp only: set_map)
    then show "\<exists>x. Contribution c = Fin x" unfolding conts by auto
  qed
  have m1: "map Contribution (contribution_analysis res) = map Fin cs"
    unfolding cs_def using allfin by (auto simp: comp_def)
  have "sum_list cs = sum_list (map (\<lambda>c. case Contribution c of Fin x \<Rightarrow> x | NaN \<Rightarrow> 0) (map ?pct ?rows))"
    unfolding cs_def car by (rule sum_list_sort_values_desc)
  also have "\<dots> = sum_list (map (\<lambda>x. case x of Fin x \<Rightarrow> x | NaN \<Rightarrow> 0) (map Contribution (map ?pct ?rows)))"
    by (simp add: comp_def)
  also have "\<dots> = (\<Sum>p\<leftarrow>?iw. ?c p)" unfolding conts by (simp add: comp_def)
  also have "\<dots> = (?h / ?n) * (\<Sum>(ind, w)\<leftarrow>?iw. w * (\<Sum>r\<leftarrow>?poor. cell r ind))"
    using sum_list_scale [where a = ?h and g = snd and f = "\<lambda>p. \<Sum>r\<leftarrow>?poor. cell r (fst p)"
        and n = ?n and ps = ?iw]
    by (simp add: case_prod_unfold)
  also have "(\<Sum>(ind, w)\<leftarrow>?iw. w * (\<Sum>r\<leftarrow>?poor. cell r ind)) =
             (\<Sum>r\<leftarrow>?poor. \<Sum>(ind, w)\<leftarrow>?iw. w * cell r ind)"
    using sum_list_swap [where g = snd and rs = ?poor and f = "\<lambda>r p. cell r (fst p)" and ps = ?iw] by (simp add: case_prod_unfold)
  also have "\<dots> = (\<Sum>r\<leftarrow>?poor. Deprivation_Score r)"
  proof (intro arg_cong [where f = sum_list] map_cong refl)
    fix r assume "r \<in> set ?poor"
    then have r: "r \<in> set (scored_rows ?sdf)" by (simp add: poor_rows_def)
    from score_rows_row [OF sr r] weighted_sum_Inr
    have "Deprivation_Score r = (\<Sum>ind\<leftarrow>?all. cells r ind * dict_get ?iw ind 0)" by blast
    also have "\<dots> = (\<Sum>ind\<leftarrow>?all. cell r ind * dict_get ?iw ind 0)"
      using names by (intro arg_cong [where f = sum_list] map_cong refl) (auto simp: cell_def)
    also have "\<dots> = (\<Sum>(ind, w)\<leftarrow>?iw. w * cell r ind)"
      by (rule weighted_sum_by_items [OF dw di keys, symmetric])
    finally show "(\<Sum>(ind, w)\<leftarrow>?iw. w * cell r ind) = Deprivation_Score r" by simp
  qed
  finally have "sum_list cs = ?h * (sum_list (map Deprivation_Score ?poor) / ?n)" by simp
  with M m1 show ?thesis by auto
qed

end
